theory Spec2Isabelle
  imports Complex_Main "HOL-Library.AList" "HOL-Library.Sublist"
begin

section \<open>Data model\<close>

text \<open>
  Exceptions of the Python source are values of \<open>error\<close>; a computation that may raise
  returns \<open>error + 'a\<close> with \<open>Inl\<close> the exception. Python floats are idealised as
  \<open>real\<close> (no rounding, no NaN); Python ints are \<open>int\<close>; strings are ASCII \<open>string\<close>s.
\<close>

datatype error = TypeError | ValueError | ValidationError | StoreError

datatype DataStatus = ACTIVE | INACTIVE | DELETED | PROCESSING | ERROR

fun status_value :: "DataStatus \<Rightarrow> string" where
  "status_value ACTIVE = ''active''"
| "status_value INACTIVE = ''inactive''"
| "status_value DELETED = ''deleted''"
| "status_value PROCESSING = ''processing''"
| "status_value ERROR = ''error''"

datatype SearchType = SEMANTIC | KEYWORD | HYBRID | FUZZY | EXACT

text \<open>JSON values: filter mappings, MongoDB match documents and oracle replies
  (\<open>JInt\<close> a Python int, \<open>JNum\<close> a Python float).\<close>

datatype jvalue =
    JNull | JBool bool | JInt int | JNum real | JStr string
  | JArr "jvalue list" | JObj "(string \<times> jvalue) list"

type_synonym jdict = "(string \<times> jvalue) list"

text \<open>
  \<open>DataRecord\<close> of \<open>models/data_models.py\<close>, with the fields the search core reads.
  \<open>rec_id\<close> is the field \<open>id\<close>. \<open>score\<close> is declared \<open>Optional[float] = None\<close>: the
  attribute always exists, so \<open>getattr(record, 'score', d)\<close> yields \<open>None\<close>, never \<open>d\<close>,
  on an unscored record. \<open>content\<close>, \<open>metadata\<close> and the other timestamps are carried
  through unchanged by the search core and are left out.
\<close>

record DataRecord =
  rec_id :: string
  title :: string
  description :: "string option"
  tags :: "string list"
  category :: "string option"
  status :: DataStatus
  created_at :: int
  embedding :: "real list option"
  score :: "real option"

text \<open>
  The dictionary every retrieval strategy returns
  (\<open>{"data", "total_count", "offset", "limit", "returned_count"}\<close>).
\<close>

record page =
  data :: "DataRecord list"
  page_total_count :: int
  page_offset :: int
  page_limit :: int
  page_returned_count :: int

text \<open>\<open>SearchResult\<close> and \<open>SearchResponse\<close> of \<open>models/search_models.py\<close>
  (\<open>processing_time\<close> is wall-clock time and is left out).\<close>

record SearchResult =
  sr_id :: string
  sr_title :: string
  sr_description :: "string option"
  sr_tags :: "string list"
  sr_category :: "string option"
  sr_score :: real
  sr_highlights :: "(string \<times> string list) list"
  sr_created_at :: int

record SearchResponse =
  query :: string
  search_type :: SearchType
  results :: "SearchResult list"
  total_count :: int
  returned_count :: int
  offset :: int
  limit :: int
  suggestions :: "string list"
  facets :: "(string \<times> (string \<times> nat) list) list"

text \<open>
  The collaborators of \<open>SearchService\<close>: the store adapter
  \<open>db_service.search_records(query, filters, limit, offset)\<close>, the three calls into the
  injected \<open>ai_service\<close>, scikit-learn's \<open>cosine_similarity\<close> on two vectors, and the
  order in which the Python runtime iterates a \<open>set\<close> of strings (given the elements in
  insertion order). Each call may raise. \<open>suggest_queries\<close> hands on whatever JSON value
  the oracle's reply parses to.
\<close>

record env =
  db_search_records :: "string \<Rightarrow> jdict option \<Rightarrow> int \<Rightarrow> int \<Rightarrow> error + page"
  ai_process_search_query :: "string \<Rightarrow> error + jdict"
  ai_generate_embeddings :: "string \<Rightarrow> error + real list"
  ai_suggest_queries :: "string \<Rightarrow> string list \<Rightarrow> string list \<Rightarrow> error + jvalue"
  sk_cosine_similarity :: "real list \<Rightarrow> real list \<Rightarrow> error + real"
  py_set_iter :: "string list \<Rightarrow> string list"

section \<open>Python built-ins used by the source\<close>

definition is_space :: "char \<Rightarrow> bool" where
  "is_space c = (c \<in> set [CHR 0x20, CHR 0x09, CHR 0x0A, CHR 0x0B, CHR 0x0C, CHR 0x0D,
                            CHR 0x1C, CHR 0x1D, CHR 0x1E, CHR 0x1F])"

definition is_letter :: "char \<Rightarrow> bool" where
  "is_letter c = (c \<in> set ''abcdefghijklmnopqrstuvwxyzABCDEFGHIJKLMNOPQRSTUVWXYZ'')"

definition is_word_char :: "char \<Rightarrow> bool" where
  "is_word_char c = (is_letter c \<or> c \<in> set ''0123456789_'')"

definition lower_char :: "char \<Rightarrow> char" where
  "lower_char c =
     (case map_of (zip ''ABCDEFGHIJKLMNOPQRSTUVWXYZ'' ''abcdefghijklmnopqrstuvwxyz'') c of
        Some l \<Rightarrow> l | None \<Rightarrow> c)"

definition py_lower :: "string \<Rightarrow> string" where
  "py_lower s = map lower_char s"

definition py_strip :: "string \<Rightarrow> string" where
  "py_strip s = rev (dropWhile is_space (rev (dropWhile is_space s)))"

text \<open>Maximal runs of characters satisfying \<open>P\<close>, left to right; \<open>cur\<close> is the run being read.\<close>

fun runs :: "(char \<Rightarrow> bool) \<Rightarrow> string \<Rightarrow> string \<Rightarrow> string list" where
  "runs P cur [] = (if cur = [] then [] else [cur])"
| "runs P cur (c # cs) =
     (if P c then runs P (cur @ [c]) cs
      else (if cur = [] then [] else [cur]) @ runs P [] cs)"

text \<open>\<open>str.split()\<close> with no argument: the maximal runs of non-whitespace.\<close>

definition py_split :: "string \<Rightarrow> string list" where
  "py_split s = runs (\<lambda>c. \<not> is_space c) [] s"

text \<open>\<open>sep.join(xs)\<close>.\<close>

fun py_join :: "string \<Rightarrow> string list \<Rightarrow> string" where
  "py_join sep [] = []"
| "py_join sep [x] = x"
| "py_join sep (x # y # ys) = x @ sep @ py_join sep (y # ys)"

text \<open>\<open>sub in s\<close> on strings.\<close>

fun py_in :: "string \<Rightarrow> string \<Rightarrow> bool" where
  "py_in sub [] = (sub = [])"
| "py_in sub (c # cs) = (take (length sub) (c # cs) = sub \<or> py_in sub cs)"

text \<open>
  \<open>s.replace(old, new)\<close>: every non-overlapping occurrence of \<open>old\<close>, left to right. The
  counter is the number of characters of a matched occurrence still to be skipped.
\<close>

fun replace_from :: "string \<Rightarrow> string \<Rightarrow> nat \<Rightarrow> string \<Rightarrow> string" where
  "replace_from old new k [] = []"
| "replace_from old new (Suc k) (c # cs) = replace_from old new k cs"
| "replace_from old new 0 (c # cs) =
     (if take (length old) (c # cs) = old
      then new @ replace_from old new (length old - 1) cs
      else c # replace_from old new 0 cs)"

definition py_replace :: "string \<Rightarrow> string \<Rightarrow> string \<Rightarrow> string" where
  "py_replace s old new =
     (if old = [] then new @ concat (map (\<lambda>c. c # new) s) else replace_from old new 0 s)"

text \<open>\<open>xs[i:j]\<close> with Python's treatment of negative and out-of-range bounds.\<close>

definition slice_bound :: "int \<Rightarrow> int \<Rightarrow> nat" where
  "slice_bound n k = nat (if k < 0 then max 0 (n + k) else min k n)"

definition py_slice :: "'a list \<Rightarrow> int \<Rightarrow> int \<Rightarrow> 'a list" where
  "py_slice xs i j =
     (let n = int (length xs); a = slice_bound n i; b = slice_bound n j
      in take (b - a) (drop a xs))"

text \<open>
  \<open>sorted(xs, key=key, reverse=True)\<close> where a key may be \<open>None\<close>: stable, descending;
  comparing \<open>None\<close> with anything raises \<open>TypeError\<close>, and every element of a list of two
  or more is compared at least once.
\<close>

definition py_sorted_desc :: "('a \<Rightarrow> real option) \<Rightarrow> 'a list \<Rightarrow> error + 'a list" where
  "py_sorted_desc key xs =
     (if length xs \<le> 1 then Inr xs
      else if list_ex (\<lambda>x. key x = None) xs then Inl TypeError
      else Inr (sort_key (\<lambda>x. - the (key x)) xs))"

text \<open>Insertion into a Python \<open>set\<close> or \<open>dict.fromkeys\<close>, kept in first-insertion order.\<close>

definition set_add :: "'a \<Rightarrow> 'a list \<Rightarrow> 'a list" where
  "set_add x acc = (if x \<in> set acc then acc else acc @ [x])"

text \<open>Truth value of a JSON value (\<open>if v:\<close>).\<close>

fun truthy :: "jvalue \<Rightarrow> bool" where
  "truthy JNull = False"
| "truthy (JBool b) = b"
| "truthy (JInt i) = (i \<noteq> 0)"
| "truthy (JNum x) = (x \<noteq> 0)"
| "truthy (JStr s) = (s \<noteq> [])"
| "truthy (JArr xs) = (xs \<noteq> [])"
| "truthy (JObj kvs) = (kvs \<noteq> [])"

section \<open>\<open>utils/helpers.py\<close>\<close>

definition stop_words :: "string list" where
  "stop_words =
    [''the'', ''a'', ''an'', ''and'', ''or'', ''but'', ''in'', ''on'', ''at'', ''to'', ''for'',
     ''of'', ''with'', ''by'', ''is'', ''are'', ''was'', ''were'', ''be'', ''been'', ''being'',
     ''have'', ''has'', ''had'', ''do'', ''does'', ''did'', ''will'', ''would'', ''could'',
     ''should'', ''this'', ''that'', ''these'', ''those'', ''i'', ''you'', ''he'', ''she'',
     ''it'', ''we'', ''they'', ''me'', ''him'', ''her'', ''us'', ''them'']"

text \<open>
  \<open>re.findall(r'\b[a-zA-Z]{3,}\b', s)\<close>: a match starts and ends at a word boundary, so
  the matches are the maximal runs of word characters that are letters only and at least
  three long.
\<close>

definition findall_words :: "string \<Rightarrow> string list" where
  "findall_words s =
     filter (\<lambda>w. 3 \<le> length w \<and> list_all is_letter w) (runs is_word_char [] s)"

definition extract_keywords :: "string \<Rightarrow> string list" where
  "extract_keywords text =
     (let words = findall_words (py_lower text);
          keywords = filter (\<lambda>w. w \<notin> set stop_words) words
      in take 10 (fold set_add keywords []))"

text \<open>The Jaccard similarity of the two token sets; a Python \<open>set\<close> is a duplicate-free
  list here.\<close>

definition calculate_similarity_score :: "string \<Rightarrow> string \<Rightarrow> real" where
  "calculate_similarity_score text1 text2 =
     (if text1 = [] \<or> text2 = [] then 0
      else let words1 = remdups (py_split (py_lower text1));
               words2 = remdups (py_split (py_lower text2));
               intersection = filter (\<lambda>w. w \<in> set words2) words1;
               union = words1 @ filter (\<lambda>w. w \<notin> set words1) words2
           in if union = [] then 0
              else real (length intersection) / real (length union))"

section \<open>\<open>services/search_service.py\<close>: retrieval strategies\<close>

definition keyword_search :: "env \<Rightarrow> string \<Rightarrow> jdict option \<Rightarrow> int \<Rightarrow> int \<Rightarrow> error + page" where
  "keyword_search E q filters lmt ofs = db_search_records E q filters lmt ofs"

text \<open>The scoring loop of \<open>_semantic_search\<close>: a truthy embedding is scored by cosine
  similarity, anything else by the text similarity of the query and title plus description.\<close>

definition text_content :: "DataRecord \<Rightarrow> string" where
  "text_content r =
     title r @ '' '' @ (case description r of None \<Rightarrow> [] | Some d \<Rightarrow> d)"

definition has_embedding :: "DataRecord \<Rightarrow> bool" where
  "has_embedding r = (case embedding r of None \<Rightarrow> False | Some v \<Rightarrow> v \<noteq> [])"

fun score_records :: "env \<Rightarrow> string \<Rightarrow> real list \<Rightarrow> DataRecord list \<Rightarrow> error + DataRecord list" where
  "score_records E q qe [] = Inr []"
| "score_records E q qe (r # rs) =
     (if has_embedding r then
        (case sk_cosine_similarity E qe (the (embedding r)) of
           Inl e \<Rightarrow> Inl e
         | Inr similarity \<Rightarrow>
             (case score_records E q qe rs of
                Inl e \<Rightarrow> Inl e
              | Inr scored \<Rightarrow> Inr (r\<lparr>score := Some similarity\<rparr> # scored)))
      else
        (case score_records E q qe rs of
           Inl e \<Rightarrow> Inl e
         | Inr scored \<Rightarrow>
             Inr (r\<lparr>score := Some (calculate_similarity_score q (text_content r))\<rparr> # scored)))"

text \<open>The \<open>try\<close> block of \<open>_semantic_search\<close>.\<close>

definition semantic_body :: "env \<Rightarrow> string \<Rightarrow> jdict option \<Rightarrow> int \<Rightarrow> int \<Rightarrow> error + page" where
  "semantic_body E q filters lmt ofs =
     (case ai_generate_embeddings E q of
        Inl e \<Rightarrow> Inl e
      | Inr query_embedding \<Rightarrow>
     (case db_search_records E [] filters 1000 0 of
        Inl e \<Rightarrow> Inl e
      | Inr all_records \<Rightarrow>
     (case score_records E q query_embedding (data all_records) of
        Inl e \<Rightarrow> Inl e
      | Inr scored_records \<Rightarrow>
     (case py_sorted_desc score scored_records of
        Inl e \<Rightarrow> Inl e
      | Inr sorted_records \<Rightarrow>
          (let paginated_records = py_slice sorted_records ofs (ofs + lmt)
           in Inr \<lparr>data = paginated_records,
                   page_total_count = int (length scored_records),
                   page_offset = ofs, page_limit = lmt,
                   page_returned_count = int (length paginated_records)\<rparr>)))))"

definition semantic_search :: "env \<Rightarrow> string \<Rightarrow> jdict option \<Rightarrow> int \<Rightarrow> int \<Rightarrow> error + page" where
  "semantic_search E q filters lmt ofs =
     (case semantic_body E q filters lmt ofs of
        Inl e \<Rightarrow> keyword_search E q filters lmt ofs
      | Inr r \<Rightarrow> Inr r)"

definition regex_cond :: "string \<Rightarrow> string \<Rightarrow> jvalue" where
  "regex_cond field pattern =
     JObj [(field, JObj [(''$regex'', JStr pattern), (''$options'', JStr ''i'')])]"

definition or_clause :: "string \<Rightarrow> jvalue" where
  "or_clause pattern =
     JArr [regex_cond ''title'' pattern, regex_cond ''description'' pattern,
           regex_cond ''search_text'' pattern]"

definition copy_filters :: "jdict option \<Rightarrow> jdict" where
  "copy_filters filters = (case filters of None \<Rightarrow> [] | Some f \<Rightarrow> f)"

text \<open>The \<open>try\<close> block of \<open>_fuzzy_search\<close>.\<close>

definition fuzzy_body :: "env \<Rightarrow> string \<Rightarrow> jdict option \<Rightarrow> int \<Rightarrow> int \<Rightarrow> error + page" where
  "fuzzy_body E q filters lmt ofs =
     (let keywords = extract_keywords q;
          fuzzy_filters = copy_filters filters;
          fuzzy_patterns = map (\<lambda>keyword. ''.*'' @ keyword @ ''.*'') keywords;
          fuzzy_filters' =
            (if keywords \<noteq> []
             then AList.update ''$or'' (or_clause (py_join ''|'' fuzzy_patterns)) fuzzy_filters
             else fuzzy_filters)
      in db_search_records E [] (Some fuzzy_filters') lmt ofs)"

definition fuzzy_search :: "env \<Rightarrow> string \<Rightarrow> jdict option \<Rightarrow> int \<Rightarrow> int \<Rightarrow> error + page" where
  "fuzzy_search E q filters lmt ofs =
     (case fuzzy_body E q filters lmt ofs of
        Inl e \<Rightarrow> keyword_search E q filters lmt ofs
      | Inr r \<Rightarrow> Inr r)"

text \<open>The \<open>try\<close> block of \<open>_exact_search\<close>; the pattern is backslash, b, the query,
  backslash, b.\<close>

definition exact_body :: "env \<Rightarrow> string \<Rightarrow> jdict option \<Rightarrow> int \<Rightarrow> int \<Rightarrow> error + page" where
  "exact_body E q filters lmt ofs =
     (let exact_filters = copy_filters filters;
          pattern = [CHR 0x5C, CHR ''b''] @ q @ [CHR 0x5C, CHR ''b''];
          exact_filters' = AList.update ''$or'' (or_clause pattern) exact_filters
      in db_search_records E [] (Some exact_filters') lmt ofs)"

definition exact_search :: "env \<Rightarrow> string \<Rightarrow> jdict option \<Rightarrow> int \<Rightarrow> int \<Rightarrow> error + page" where
  "exact_search E q filters lmt ofs =
     (case exact_body E q filters lmt ofs of
        Inl e \<Rightarrow> keyword_search E q filters lmt ofs
      | Inr r \<Rightarrow> Inr r)"

subsection \<open>Hybrid fusion\<close>

text \<open>
  \<open>combined_results\<close>: a dict from record id to \<open>{"record", "score"}\<close>, in insertion
  order. A semantic-only entry stores the record's score as it is, so it may be \<open>None\<close>.
\<close>

type_synonym combined = "(string \<times> (DataRecord \<times> real option)) list"

text \<open>First loop: \<open>score * 1.2\<close> raises \<open>TypeError\<close> on an unscored record.\<close>

fun add_keyword :: "combined \<Rightarrow> DataRecord list \<Rightarrow> error + combined" where
  "add_keyword acc [] = Inr acc"
| "add_keyword acc (r # rs) =
     (case score r of
        None \<Rightarrow> Inl TypeError
      | Some s \<Rightarrow> add_keyword (AList.update (rec_id r) (r, Some (s * (12 / 10))) acc) rs)"

text \<open>Second loop: \<open>+=\<close> raises \<open>TypeError\<close> when either side is \<open>None\<close>.\<close>

fun add_semantic :: "combined \<Rightarrow> DataRecord list \<Rightarrow> error + combined" where
  "add_semantic acc [] = Inr acc"
| "add_semantic acc (r # rs) =
     (case map_of acc (rec_id r) of
        Some (r0, sc0) \<Rightarrow>
          (case (sc0, score r) of
             (Some a, Some b) \<Rightarrow> add_semantic (AList.update (rec_id r) (r0, Some (a + b)) acc) rs
           | _ \<Rightarrow> Inl TypeError)
      | None \<Rightarrow> add_semantic (AList.update (rec_id r) (r, score r) acc) rs)"

definition set_score :: "DataRecord \<times> real option \<Rightarrow> DataRecord" where
  "set_score p = (fst p)\<lparr>score := snd p\<rparr>"

text \<open>The \<open>try\<close> block of \<open>_hybrid_search_combined\<close>.\<close>

definition hybrid_combined_body :: "env \<Rightarrow> string \<Rightarrow> jdict option \<Rightarrow> int \<Rightarrow> int \<Rightarrow> error + page" where
  "hybrid_combined_body E q filters lmt ofs =
     (case keyword_search E q filters (lmt * 2) 0 of
        Inl e \<Rightarrow> Inl e
      | Inr keyword_results \<Rightarrow>
     (case semantic_search E q filters (lmt * 2) 0 of
        Inl e \<Rightarrow> Inl e
      | Inr semantic_results \<Rightarrow>
     (case add_keyword [] (data keyword_results) of
        Inl e \<Rightarrow> Inl e
      | Inr c1 \<Rightarrow>
     (case add_semantic c1 (data semantic_results) of
        Inl e \<Rightarrow> Inl e
      | Inr combined_results \<Rightarrow>
     (case py_sorted_desc snd (map snd combined_results) of
        Inl e \<Rightarrow> Inl e
      | Inr sorted_results \<Rightarrow>
          (let paginated_results = py_slice sorted_results ofs (ofs + lmt);
               final_records = map set_score paginated_results
           in Inr \<lparr>data = final_records,
                   page_total_count = int (length sorted_results),
                   page_offset = ofs, page_limit = lmt,
                   page_returned_count = int (length final_records)\<rparr>))))))"

definition hybrid_search_combined :: "env \<Rightarrow> string \<Rightarrow> jdict option \<Rightarrow> int \<Rightarrow> int \<Rightarrow> error + page" where
  "hybrid_search_combined E q filters lmt ofs =
     (case hybrid_combined_body E q filters lmt ofs of
        Inl e \<Rightarrow> keyword_search E q filters lmt ofs
      | Inr r \<Rightarrow> Inr r)"

section \<open>\<open>services/search_service.py\<close>: enrichment\<close>

definition mark :: "string \<Rightarrow> string" where
  "mark keyword = ''<mark>'' @ keyword @ ''</mark>''"

text \<open>One loop of \<open>_generate_highlights\<close> over the keywords, for one field's text.\<close>

definition field_highlights :: "string list \<Rightarrow> string \<Rightarrow> string list" where
  "field_highlights keywords field_text =
     map (\<lambda>keyword. py_replace field_text keyword (mark keyword))
         (filter (\<lambda>keyword. py_in (py_lower keyword) (py_lower field_text)) keywords)"

definition generate_highlights :: "DataRecord \<Rightarrow> string \<Rightarrow> (string \<times> string list) list" where
  "generate_highlights record q =
     (let keywords = extract_keywords q;
          title_highlights = field_highlights keywords (title record);
          highlights = (if title_highlights \<noteq> [] then [(''title'', title_highlights)] else [])
      in case description record of
           None \<Rightarrow> highlights
         | Some d \<Rightarrow>
             if d = [] then highlights
             else (let desc_highlights = field_highlights keywords d
                   in if desc_highlights \<noteq> []
                      then highlights @ [(''description'', desc_highlights)]
                      else highlights))"

text \<open>\<open>if record.category:\<close> holds for a category that is neither \<open>None\<close> nor empty.\<close>

definition category_list :: "DataRecord \<Rightarrow> string list" where
  "category_list r = (case category r of None \<Rightarrow> [] | Some c \<Rightarrow> if c = [] then [] else [c])"

text \<open>
  \<open>ai_suggestions[:5]\<close> on the value \<open>suggest_queries\<close> returned: the first five items of
  a list, the first five characters of a string (which \<open>extend\<close> adds one by one); on any
  other value the slice raises and the exception is swallowed, so nothing is added.
\<close>

fun first_five :: "jvalue \<Rightarrow> jvalue list" where
  "first_five (JArr vs) = take 5 vs"
| "first_five (JStr s) = map (\<lambda>c. JStr [c]) (take 5 s)"
| "first_five v = []"

text \<open>\<open>_generate_suggestions\<close>: the items of the returned list are not checked here.\<close>

definition generate_suggestions :: "env \<Rightarrow> string \<Rightarrow> DataRecord list \<Rightarrow> jvalue list" where
  "generate_suggestions E q rs =
     (let top = take 10 rs;
          categories = fold set_add (concat (map category_list top)) [];
          tag_set = fold set_add (concat (map (\<lambda>r. take 3 (tags r)) top)) [];
          by_category = map (\<lambda>c. JStr (q @ '' in '' @ c)) (take 3 (py_set_iter E categories));
          by_tag = map (\<lambda>t. JStr (q @ '' tagged '' @ t)) (take 3 (py_set_iter E tag_set));
          suggs = by_category @ by_tag;
          suggs' =
            (if length suggs < 5
             then (case ai_suggest_queries E q (py_set_iter E categories) (py_set_iter E tag_set) of
                     Inl e \<Rightarrow> suggs
                   | Inr ai_suggestions \<Rightarrow> suggs @ first_five ai_suggestions)
             else suggs)
      in take 5 suggs')"

definition bump :: "string \<Rightarrow> (string \<times> nat) list \<Rightarrow> (string \<times> nat) list" where
  "bump k m = AList.update k ((case map_of m k of None \<Rightarrow> 0 | Some n \<Rightarrow> n) + 1) m"

definition generate_facets :: "DataRecord list \<Rightarrow> (string \<times> (string \<times> nat) list) list" where
  "generate_facets rs =
     [(''categories'', fold bump (concat (map category_list rs)) []),
      (''tags'', fold bump (concat (map tags rs)) []),
      (''status'', fold bump (map (\<lambda>r. status_value (status r)) rs) [])]"

section \<open>\<open>services/search_service.py\<close>: the orchestrator \<open>hybrid_search\<close>\<close>

text \<open>The strings of a list of JSON values, when all of them are strings.\<close>

fun jstr_list :: "jvalue list \<Rightarrow> string list option" where
  "jstr_list [] = Some []"
| "jstr_list (JStr s # vs) = (case jstr_list vs of None \<Rightarrow> None | Some ss \<Rightarrow> Some (s # ss))"
| "jstr_list (v # vs) = None"

text \<open>\<open>" ".join(ai_processed["keywords"])\<close> on whatever JSON value the oracle put there.\<close>

fun join_keywords :: "jvalue \<Rightarrow> error + string" where
  "join_keywords (JArr vs) =
     (case jstr_list vs of None \<Rightarrow> Inl TypeError | Some ss \<Rightarrow> Inr (py_join '' '' ss))"
| "join_keywords (JStr s) = Inr (py_join '' '' (map (\<lambda>c. [c]) s))"
| "join_keywords (JObj kvs) = Inr (py_join '' '' (map fst kvs))"
| "join_keywords v = Inl TypeError"

definition process_query :: "env \<Rightarrow> string \<Rightarrow> SearchType \<Rightarrow> error + string" where
  "process_query E q st =
     (if st = SEMANTIC \<or> st = HYBRID then
        (case ai_process_search_query E q of
           Inl e \<Rightarrow> Inl e
         | Inr ai_processed \<Rightarrow>
             (case map_of ai_processed ''keywords'' of
                None \<Rightarrow> Inr q
              | Some kw \<Rightarrow> if truthy kw then join_keywords kw else Inr q))
      else Inr q)"

definition dispatch :: "env \<Rightarrow> SearchType \<Rightarrow> string \<Rightarrow> jdict option \<Rightarrow> int \<Rightarrow> int \<Rightarrow> error + page" where
  "dispatch E st pq filters lmt ofs =
     (case st of
        SEMANTIC \<Rightarrow> semantic_search E pq filters lmt ofs
      | KEYWORD \<Rightarrow> keyword_search E pq filters lmt ofs
      | FUZZY \<Rightarrow> fuzzy_search E pq filters lmt ofs
      | EXACT \<Rightarrow> exact_search E pq filters lmt ofs
      | HYBRID \<Rightarrow> hybrid_search_combined E pq filters lmt ofs)"

text \<open>Interpretation and retrieval: the part of \<open>hybrid_search\<close> before the score filter.\<close>

definition retrieve :: "env \<Rightarrow> string \<Rightarrow> SearchType \<Rightarrow> jdict option \<Rightarrow> int \<Rightarrow> int \<Rightarrow> error + page" where
  "retrieve E q st filters lmt ofs =
     (case process_query E q st of
        Inl e \<Rightarrow> Inl e
      | Inr processed_query \<Rightarrow> dispatch E st processed_query filters lmt ofs)"

text \<open>The filter loop: \<open>score >= min_score\<close> raises \<open>TypeError\<close> on an unscored record.\<close>

fun filter_min_score :: "real \<Rightarrow> DataRecord list \<Rightarrow> error + DataRecord list" where
  "filter_min_score m [] = Inr []"
| "filter_min_score m (r # rs) =
     (case score r of
        None \<Rightarrow> Inl TypeError
      | Some s \<Rightarrow>
          (case filter_min_score m rs of
             Inl e \<Rightarrow> Inl e
           | Inr kept \<Rightarrow> Inr (if s \<ge> m then r # kept else kept)))"

definition apply_min_score :: "real \<Rightarrow> page \<Rightarrow> error + page" where
  "apply_min_score m res =
     (if m > 0 then
        (case filter_min_score m (data res) of
           Inl e \<Rightarrow> Inl e
         | Inr filtered_data \<Rightarrow>
             Inr (res\<lparr>data := filtered_data,
                      page_returned_count := int (length filtered_data)\<rparr>))
      else Inr res)"

text \<open>\<open>SearchResult(...)\<close>: the field \<open>score\<close> is a required float, so \<open>None\<close> is rejected.\<close>

definition make_result :: "string \<Rightarrow> DataRecord \<Rightarrow> error + SearchResult" where
  "make_result q record =
     (case score record of
        None \<Rightarrow> Inl ValidationError
      | Some s \<Rightarrow>
          Inr \<lparr>sr_id = rec_id record, sr_title = title record,
               sr_description = description record, sr_tags = tags record,
               sr_category = category record, sr_score = s,
               sr_highlights = generate_highlights record q,
               sr_created_at = created_at record\<rparr>)"

fun make_results :: "string \<Rightarrow> DataRecord list \<Rightarrow> error + SearchResult list" where
  "make_results q [] = Inr []"
| "make_results q (r # rs) =
     (case make_result q r of
        Inl e \<Rightarrow> Inl e
      | Inr x \<Rightarrow> (case make_results q rs of Inl e \<Rightarrow> Inl e | Inr xs \<Rightarrow> Inr (x # xs)))"

text \<open>
  The \<open>try\<close> block of \<open>hybrid_search\<close>. \<open>SearchResponse(...)\<close> is built inside it: the
  field \<open>suggestions\<close> is a \<open>List[str]\<close>, so an item that is not a string is rejected
  and the \<open>except\<close> branch answers.
\<close>

definition hybrid_search_body ::
  "env \<Rightarrow> string \<Rightarrow> SearchType \<Rightarrow> jdict option \<Rightarrow> int \<Rightarrow> int \<Rightarrow> real \<Rightarrow> error + SearchResponse" where
  "hybrid_search_body E q st filters lmt ofs min_score =
     (case retrieve E q st filters lmt ofs of
        Inl e \<Rightarrow> Inl e
      | Inr res0 \<Rightarrow>
     (case apply_min_score min_score res0 of
        Inl e \<Rightarrow> Inl e
      | Inr res \<Rightarrow>
     (case make_results q (data res) of
        Inl e \<Rightarrow> Inl e
      | Inr search_results \<Rightarrow>
     (case jstr_list (generate_suggestions E q (data res)) of
        None \<Rightarrow> Inl ValidationError
      | Some suggs \<Rightarrow>
          Inr \<lparr>query = q, search_type = st, results = search_results,
               total_count = page_total_count res,
               returned_count = int (length search_results),
               offset = ofs, limit = lmt,
               suggestions = suggs,
               facets = generate_facets (data res)\<rparr>))))"

text \<open>The response of the \<open>except\<close> branch.\<close>

definition empty_response :: "string \<Rightarrow> SearchType \<Rightarrow> int \<Rightarrow> int \<Rightarrow> SearchResponse" where
  "empty_response q st lmt ofs =
     \<lparr>query = q, search_type = st, results = [], total_count = 0, returned_count = 0,
      offset = ofs, limit = lmt, suggestions = [], facets = []\<rparr>"

definition hybrid_search ::
  "env \<Rightarrow> string \<Rightarrow> SearchType \<Rightarrow> jdict option \<Rightarrow> int \<Rightarrow> int \<Rightarrow> real \<Rightarrow> SearchResponse" where
  "hybrid_search E q st filters lmt ofs min_score =
     (case hybrid_search_body E q st filters lmt ofs min_score of
        Inl e \<Rightarrow> empty_response q st lmt ofs
      | Inr response \<Rightarrow> response)"


definition scored :: "DataRecord \<Rightarrow> bool" where
  "scored r = (score r \<noteq> None)"

text \<open>The \<open>SearchResult\<close> built from a scored record.\<close>

definition result_of :: "string \<Rightarrow> DataRecord \<Rightarrow> SearchResult" where
  "result_of q record =
     \<lparr>sr_id = rec_id record, sr_title = title record,
      sr_description = description record, sr_tags = tags record,
      sr_category = category record, sr_score = the (score record),
      sr_highlights = generate_highlights record q,
      sr_created_at = created_at record\<rparr>"

text \<open>The candidates of a retrieved page that pass the score floor.\<close>

definition kept_records :: "real \<Rightarrow> page \<Rightarrow> DataRecord list" where
  "kept_records m res0 =
     (if m > 0 then filter (\<lambda>r. the (score r) \<ge> m) (data res0) else data res0)"

section \<open>\<open>services/database.py\<close>: \<open>search_records\<close>\<close>

text \<open>
  The store: the documents of the collection in their natural order, and the behaviour
  of MongoDB that the adapter relies on. \<open>mongo_ext\<close> evaluates one top-level condition of
  a \<open>$match\<close> document that is outside the fragment modelled below (\<open>$text\<close>, \<open>$or\<close>,
  \<open>$regex\<close>, ranges, other fields); \<open>text_score\<close> is \<open>{"$meta": "textScore"}\<close>;
  \<open>aggregate_raises\<close> tells whether the driver raises for a \<open>$match\<close> document.
\<close>

record store =
  collection :: "DataRecord list"
  mongo_ext :: "string \<Rightarrow> jvalue \<Rightarrow> DataRecord \<Rightarrow> bool"
  text_score :: "string \<Rightarrow> DataRecord \<Rightarrow> real"
  aggregate_raises :: "jdict \<Rightarrow> bool"

text \<open>
  MongoDB on a string-valued field: a string value asks for equality, \<open>{"$ne": s}\<close> for
  inequality (an absent value is unequal). \<open>None\<close> is a condition outside this fragment.
\<close>

fun scalar_cond :: "jvalue \<Rightarrow> string option \<Rightarrow> bool option" where
  "scalar_cond (JStr s) fv = Some (fv = Some s)"
| "scalar_cond (JObj [(oper, JStr s)]) fv =
     (if oper = ''$ne'' then Some (fv \<noteq> Some s) else None)"
| "scalar_cond v fv = None"

definition cond_holds :: "store \<Rightarrow> DataRecord \<Rightarrow> string \<times> jvalue \<Rightarrow> bool" where
  "cond_holds S d kv =
     (let k = fst kv; v = snd kv;
          fragment =
            (if k = ''status'' then scalar_cond v (Some (status_value (status d)))
             else if k = ''category'' then scalar_cond v (category d)
             else None)
      in case fragment of Some b \<Rightarrow> b | None \<Rightarrow> mongo_ext S k v d)"

text \<open>A \<open>$match\<close> document is the conjunction of its top-level conditions.\<close>

definition match_doc :: "store \<Rightarrow> jdict \<Rightarrow> DataRecord \<Rightarrow> bool" where
  "match_doc S conds d = list_all (cond_holds S d) conds"

text \<open>
  One round of the loop over \<open>filters.items()\<close>. \<open>setdefault("created_at", {})["$lte"] = ...\<close>
  raises \<open>TypeError\<close> when the value already stored under \<open>created_at\<close> is not a dict.
\<close>

definition add_date_range :: "jdict \<Rightarrow> jdict \<Rightarrow> error + jdict" where
  "add_date_range mc rng =
     (let mc1 = (case map_of rng ''start'' of
                   None \<Rightarrow> mc
                 | Some s \<Rightarrow> AList.update ''created_at'' (JObj [(''$gte'', s)]) mc)
      in case map_of rng ''end'' of
           None \<Rightarrow> Inr mc1
         | Some e \<Rightarrow>
             (case map_of mc1 ''created_at'' of
                None \<Rightarrow> Inr (AList.update ''created_at'' (JObj [(''$lte'', e)]) mc1)
              | Some (JObj d) \<Rightarrow>
                  Inr (AList.update ''created_at'' (JObj (AList.update ''$lte'' e d)) mc1)
              | Some other \<Rightarrow> Inl TypeError))"

fun add_filter :: "jdict \<Rightarrow> string \<times> jvalue \<Rightarrow> error + jdict" where
  "add_filter mc (key, JObj rng) =
     (if key = ''date_range'' then add_date_range mc rng
      else Inr (AList.update key (JObj rng) mc))"
| "add_filter mc (key, JArr vs) =
     (if key = ''tags'' then Inr (AList.update ''tags'' (JObj [(''$in'', JArr vs)]) mc)
      else if key = ''categories''
      then Inr (AList.update ''category'' (JObj [(''$in'', JArr vs)]) mc)
      else Inr (AList.update key (JArr vs) mc))"
| "add_filter mc (key, v) = Inr (AList.update key v mc)"

fun add_filters :: "jdict \<Rightarrow> jdict \<Rightarrow> error + jdict" where
  "add_filters mc [] = Inr mc"
| "add_filters mc (kv # kvs) =
     (case add_filter mc kv of Inl e \<Rightarrow> Inl e | Inr mc' \<Rightarrow> add_filters mc' kvs)"

text \<open>\<open>match_conditions\<close> as \<open>search_records\<close> builds it.\<close>

definition match_conditions :: "string \<Rightarrow> jdict option \<Rightarrow> error + jdict" where
  "match_conditions q filters =
     (let mc0 = [(''status'', JObj [(''$ne'', JStr ''deleted'')])];
          mc1 = (if py_strip q \<noteq> []
                 then AList.update ''$text'' (JObj [(''$search'', JStr q)]) mc0
                 else mc0)
      in add_filters mc1 (copy_filters filters))"

text \<open>
  The aggregation: \<open>$match\<close>, the text score when a query is given, \<open>$sort\<close> descending
  (by score, else by \<open>created_at\<close>; modelled as a stable sort), \<open>$count\<close>, \<open>$skip\<close>,
  \<open>$limit\<close>. MongoDB rejects a negative \<open>$skip\<close> and a non-positive \<open>$limit\<close>. Every
  exception is logged and raised again.
\<close>

definition search_records :: "store \<Rightarrow> string \<Rightarrow> jdict option \<Rightarrow> int \<Rightarrow> int \<Rightarrow> error + page" where
  "search_records S q filters lmt ofs =
     (case match_conditions q filters of
        Inl e \<Rightarrow> Inl e
      | Inr mc \<Rightarrow>
          if aggregate_raises S mc \<or> ofs < 0 \<or> lmt \<le> 0 then Inl StoreError
          else
            (let matched = filter (match_doc S mc) (collection S);
                 sorted =
                   (if py_strip q \<noteq> []
                    then sort_key (\<lambda>d. - the (score d))
                           (map (\<lambda>d. d\<lparr>score := Some (text_score S q d)\<rparr>) matched)
                    else sort_key (\<lambda>d. - created_at d) matched);
                 found = take (nat lmt) (drop (nat ofs) sorted)
             in Inr \<lparr>data = found, page_total_count = int (length sorted),
                     page_offset = ofs, page_limit = lmt,
                     page_returned_count = int (length found)\<rparr>))"

section \<open>\<open>ai_service_railway.py\<close>: \<open>process_search_query\<close>\<close>

text \<open>\<open>s.find(sub, start)\<close> and \<open>s.rfind(sub)\<close>: an index, or \<open>-1\<close>.\<close>

fun find_at :: "string \<Rightarrow> nat \<Rightarrow> string \<Rightarrow> int" where
  "find_at sub i [] = (if sub = [] then int i else - 1)"
| "find_at sub i (c # cs) =
     (if take (length sub) (c # cs) = sub then int i else find_at sub (Suc i) cs)"

definition py_find :: "string \<Rightarrow> string \<Rightarrow> nat \<Rightarrow> int" where
  "py_find s sub start = (if start > length s then - 1 else find_at sub start (drop start s))"

fun rfind_at :: "string \<Rightarrow> nat \<Rightarrow> int \<Rightarrow> string \<Rightarrow> int" where
  "rfind_at sub i best [] = (if sub = [] then int i else best)"
| "rfind_at sub i best (c # cs) =
     rfind_at sub (Suc i) (if take (length sub) (c # cs) = sub then int i else best) cs"

definition py_rfind :: "string \<Rightarrow> string \<Rightarrow> int" where
  "py_rfind s sub = rfind_at sub 0 (- 1) s"

text \<open>The dictionary of the \<open>except\<close> branch; \<open>reason\<close> is \<open>str(e)\<close>.\<close>

definition degraded_result :: "string \<Rightarrow> string \<Rightarrow> jdict" where
  "degraded_result q reason =
     [(''intent'', JStr ''search''),
      (''keywords'', JArr (map JStr (py_split q))),
      (''original_query'', JStr q),
      (''confidence'', JNum (1 / 2)),
      (''entities'', JArr []),
      (''filters'', JObj []),
      (''sort'', JObj []),
      (''date_range'', JObj []),
      (''error'', JStr reason)]"

text \<open>
  The parsing of a non-empty reply. \<open>loads\<close> is \<open>json.loads\<close>, with \<open>Inl\<close> the text of
  its \<open>JSONDecodeError\<close>. After a failed direct parse the source looks for the marker
  of a fenced block first, and only without one for a pair of braces; a failure of the
  second parse is not caught by the inner handler.
\<close>

definition parse_reply :: "(string \<Rightarrow> string + jvalue) \<Rightarrow> string \<Rightarrow> string + jvalue" where
  "parse_reply loads content =
     (case loads content of
        Inr v \<Rightarrow> Inr v
      | Inl decode_error \<Rightarrow>
          if py_in ''```json'' content then
            (let json_start = py_find content ''{'' (nat (py_find content ''```json'' 0));
                 json_end = py_rfind content ''}'' + 1
             in if json_start \<noteq> - 1 \<and> json_end \<noteq> - 1
                then loads (py_slice content json_start json_end)
                else Inl ''No valid JSON found in markdown'')
          else if py_in ''{'' content \<and> py_in ''}'' content then
            (let json_start = py_find content ''{'' 0;
                 json_end = py_rfind content ''}'' + 1
             in loads (py_slice content json_start json_end))
          else Inl ''No valid JSON found'')"

text \<open>\<open>result["original_query"] = query\<close> raises \<open>TypeError\<close> unless the parsed value is a
  dict; \<open>setitem_error\<close> is the text of that exception.\<close>

fun setitem_error :: "jvalue \<Rightarrow> string" where
  "setitem_error (JArr vs) = ''list indices must be integers or slices, not str''"
| "setitem_error (JStr s) = [CHR 0x27] @ ''str'' @ [CHR 0x27] @ '' object does not support item assignment''"
| "setitem_error (JInt i) = [CHR 0x27] @ ''int'' @ [CHR 0x27] @ '' object does not support item assignment''"
| "setitem_error (JNum x) = [CHR 0x27] @ ''float'' @ [CHR 0x27] @ '' object does not support item assignment''"
| "setitem_error (JBool b) = [CHR 0x27] @ ''bool'' @ [CHR 0x27] @ '' object does not support item assignment''"
| "setitem_error v = [CHR 0x27] @ ''NoneType'' @ [CHR 0x27] @ '' object does not support item assignment''"

fun finish_result :: "string \<Rightarrow> string \<Rightarrow> jvalue \<Rightarrow> jdict" where
  "finish_result q now (JObj d) =
     AList.update ''processed_at'' (JStr now) (AList.update ''original_query'' (JStr q) d)"
| "finish_result q now v = degraded_result q (setitem_error v)"

text \<open>
  \<open>reply\<close> is the outcome of the completion call: the message content, or \<open>Inl\<close> the
  text of the exception it raised (a timeout, an HTTP error). \<open>now\<close> is the timestamp
  written to \<open>processed_at\<close>.
\<close>

definition process_search_query ::
  "(string \<Rightarrow> string + jvalue) \<Rightarrow> string \<Rightarrow> string + string \<Rightarrow> string \<Rightarrow> jdict" where
  "process_search_query loads now reply q =
     (case reply of
        Inl reason \<Rightarrow> degraded_result q reason
      | Inr raw \<Rightarrow>
          (let content = py_strip raw
           in if content = [] then degraded_result q ''Empty AI response''
              else (case parse_reply loads content of
                      Inl reason \<Rightarrow> degraded_result q reason
                    | Inr result \<Rightarrow> finish_result q now result)))"

section \<open>Concrete stores and collaborators\<close>

text \<open>
  scikit-learn's \<open>cosine_similarity\<close> on two vectors, over the reals: both vectors are
  normalised (a zero vector is left as it is) and multiplied; vectors of different
  lengths, or without features, are rejected with \<open>ValueError\<close>.
\<close>

definition vec_norm :: "real list \<Rightarrow> real" where
  "vec_norm v = sqrt (sum_list (map (\<lambda>x. x * x) v))"

definition normalize :: "real list \<Rightarrow> real list" where
  "normalize v = (if vec_norm v = 0 then v else map (\<lambda>x. x / vec_norm v) v)"

definition cosine_value :: "real list \<Rightarrow> real list \<Rightarrow> real" where
  "cosine_value a b = sum_list (map2 (*) (normalize a) (normalize b))"

definition cosine_similarity :: "real list \<Rightarrow> real list \<Rightarrow> error + real" where
  "cosine_similarity a b =
     (if a = [] \<or> length a \<noteq> length b then Inl ValueError
      else Inr (cosine_value a b))"

text \<open>The records of the specification's scenarios, one with a stored embedding, and
  further active records.\<close>

definition rec_A :: DataRecord where
  "rec_A = \<lparr>rec_id = ''A'', title = ''Python Engineer'', description = None,
            tags = [''python''], category = None, status = ACTIVE, created_at = 1,
            embedding = None, score = None\<rparr>"

definition rec_B :: DataRecord where
  "rec_B = \<lparr>rec_id = ''B'', title = ''Java Engineer'', description = None,
            tags = [''java''], category = None, status = ACTIVE, created_at = 2,
            embedding = None, score = None\<rparr>"

definition rec_C :: DataRecord where
  "rec_C = \<lparr>rec_id = ''C'', title = ''Python Architect'', description = None,
            tags = [], category = None, status = DELETED, created_at = 3,
            embedding = None, score = None\<rparr>"

definition rec_D :: DataRecord where
  "rec_D = \<lparr>rec_id = ''D'', title = ''Python Analyst'', description = None,
            tags = [], category = None, status = ACTIVE, created_at = 4,
            embedding = Some [- 1], score = None\<rparr>"

definition rec_E :: DataRecord where
  "rec_E = \<lparr>rec_id = ''E'', title = ''Go Developer'', description = None,
            tags = [''go''], category = None, status = ACTIVE, created_at = 5,
            embedding = None, score = None\<rparr>"

definition rec_F :: DataRecord where
  "rec_F = \<lparr>rec_id = ''F'', title = ''Rust Developer'', description = None,
            tags = [''rust''], category = None, status = ACTIVE, created_at = 6,
            embedding = None, score = None\<rparr>"

definition rec_G :: DataRecord where
  "rec_G = \<lparr>rec_id = ''G'', title = ''learn python with python today'',
            description = Some ''weekly notes'',
            tags = [], category = None, status = ACTIVE, created_at = 7,
            embedding = None, score = None\<rparr>"

definition rec_H :: DataRecord where
  "rec_H = \<lparr>rec_id = ''H'', title = ''Python Reports'', description = None,
            tags = [''data''], category = None, status = ACTIVE, created_at = 8,
            embedding = None, score = None\<rparr>"

text \<open>
  A store over given documents: a text condition holds when the lower-cased query occurs
  in the lower-cased title, the text score is 1/2 for that plus 1/4 when the query is
  one of the tags, no other extended condition holds and the driver never raises.
\<close>

fun demo_ext :: "string \<Rightarrow> jvalue \<Rightarrow> DataRecord \<Rightarrow> bool" where
  "demo_ext k (JObj [(oper, JStr q)]) d =
     (k = ''$text'' \<and> oper = ''$search'' \<and> py_in (py_lower q) (py_lower (title d)))"
| "demo_ext k v d = False"

definition demo_text_score :: "string \<Rightarrow> DataRecord \<Rightarrow> real" where
  "demo_text_score q d =
     (if py_in (py_lower q) (py_lower (title d)) then 1 / 2 else 0)
     + (if py_lower q \<in> set (tags d) then 1 / 4 else 0)"

definition demo_store :: "DataRecord list \<Rightarrow> store" where
  "demo_store docs =
     \<lparr>collection = docs, mongo_ext = demo_ext, text_score = demo_text_score,
      aggregate_raises = (\<lambda>mc. False)\<rparr>"

text \<open>
  Collaborators over a store: the oracle times out (so the interpreter degrades to the
  whitespace split), every query embeds as the vector \<open>[1]\<close>, no suggestions come from
  the oracle, and a set iterates in insertion order.
\<close>

definition env_of :: "store \<Rightarrow> env" where
  "env_of S =
     \<lparr>db_search_records = search_records S,
      ai_process_search_query =
        (\<lambda>q. Inr (process_search_query (\<lambda>s. Inl ''Expecting value'') ''now''
                     (Inl ''Request timed out.'') q)),
      ai_generate_embeddings = (\<lambda>q. Inr [1]),
      ai_suggest_queries = (\<lambda>q cs ts. Inr (JArr [])),
      sk_cosine_similarity = cosine_similarity,
      py_set_iter = (\<lambda>xs. xs)\<rparr>"

definition demo_env :: "DataRecord list \<Rightarrow> env" where
  "demo_env docs = env_of (demo_store docs)"

text \<open>A store whose driver raises unless the pipeline has a text condition, and one
  whose driver always raises.\<close>

definition text_only_store :: "DataRecord list \<Rightarrow> store" where
  "text_only_store docs =
     (demo_store docs)\<lparr>aggregate_raises := (\<lambda>mc. map_of mc ''$text'' = None)\<rparr>"

definition down_store :: store where
  "down_store = (demo_store [])\<lparr>aggregate_raises := (\<lambda>mc. True)\<rparr>"

text \<open>
  Two suggestion oracles whose reply depends on the tags they are asked about: one
  answers with a list holding an object instead of a string when the tag \<open>data\<close> is
  among them, the other when it is not.
\<close>

definition object_item :: jvalue where
  "object_item = JArr [JObj [(''query'', JStr ''python reports'')]]"

definition oracle_object_with_data :: "string \<Rightarrow> string list \<Rightarrow> string list \<Rightarrow> error + jvalue" where
  "oracle_object_with_data q cs ts =
     (if ''data'' \<in> set ts then Inr object_item else Inr (JArr [JStr ''python jobs'']))"

definition oracle_object_without_data :: "string \<Rightarrow> string list \<Rightarrow> string list \<Rightarrow> error + jvalue" where
  "oracle_object_without_data q cs ts =
     (if ''data'' \<in> set ts then Inr (JArr [JStr ''python jobs'']) else Inr object_item)"

definition env_with_oracle ::
  "(string \<Rightarrow> string list \<Rightarrow> string list \<Rightarrow> error + jvalue) \<Rightarrow> DataRecord list \<Rightarrow> env" where
  "env_with_oracle oracle docs = (demo_env docs)\<lparr>ai_suggest_queries := oracle\<rparr>"


section \<open>The specification's words, for comparison with the source\<close>

text \<open>The Jaccard similarity of the token sets of two texts (0 when both are empty).\<close>

definition jaccard :: "string \<Rightarrow> string \<Rightarrow> real" where
  "jaccard text1 text2 =
     (let words1 = set (py_split (py_lower text1));
          words2 = set (py_split (py_lower text2))
      in if words1 \<union> words2 = {} then 0
         else real (card (words1 \<inter> words2)) / real (card (words1 \<union> words2)))"

text \<open>
  The semantic score of a record as the specification states it: the cosine similarity
  \<open>csim\<close> of query embedding and record embedding when the record has one, else the
  Jaccard similarity of the query and title plus description.
\<close>

definition semantic_scored ::
  "(real list \<Rightarrow> real list \<Rightarrow> real) \<Rightarrow> string \<Rightarrow> real list \<Rightarrow> DataRecord \<Rightarrow> DataRecord" where
  "semantic_scored csim q qe r =
     r\<lparr>score := Some (if has_embedding r then csim qe (the (embedding r))
                      else jaccard q (title r @ '' '' @ (case description r of None \<Rightarrow> [] | Some d \<Rightarrow> d)))\<rparr>"



text \<open>The keywords of the query that occur, ignoring case, in a field's text.\<close>

definition hit_keywords :: "string \<Rightarrow> string \<Rightarrow> string list" where
  "hit_keywords q field_text =
     filter (\<lambda>keyword. py_in (py_lower keyword) (py_lower field_text)) (extract_keywords q)"

text \<open>The keywords of the query that occur in a field's text as they are (the extracted
  keywords are in lower case).\<close>

definition literal_hits :: "string \<Rightarrow> string \<Rightarrow> string list" where
  "literal_hits q field_text = filter (\<lambda>keyword. py_in keyword field_text) (extract_keywords q)"

text \<open>The fields of a record that can carry highlights, with their text: the title, and
  a description that is present and not empty.\<close>

definition highlight_fields :: "DataRecord \<Rightarrow> (string \<times> string) list" where
  "highlight_fields r =
     (''title'', title r)
     # (case description r of
          None \<Rightarrow> []
        | Some d \<Rightarrow> if d = [] then [] else [(''description'', d)])"






section \<open>Properties of the orchestrator\<close>

text \<open>The definitions that the evaluation of a concrete search unfolds.\<close>

lemmas py_defs = py_strip_def is_space_def py_lower_def lower_char_def py_split_def
  is_letter_def is_word_char_def py_replace_def py_slice_def slice_bound_def py_sorted_desc_def
  set_add_def py_find_def py_rfind_def
lemmas helper_defs = extract_keywords_def findall_words_def stop_words_def
  calculate_similarity_score_def
lemmas store_defs = search_records_def match_conditions_def copy_filters_def match_doc_def
  cond_holds_def add_date_range_def
lemmas service_defs = keyword_search_def semantic_search_def semantic_body_def
  fuzzy_search_def fuzzy_body_def exact_search_def exact_body_def
  hybrid_search_combined_def hybrid_combined_body_def set_score_def text_content_def
  has_embedding_def regex_cond_def or_clause_def
lemmas orch_defs = hybrid_search_def hybrid_search_body_def retrieve_def process_query_def
  dispatch_def apply_min_score_def make_result_def empty_response_def
  generate_highlights_def field_highlights_def mark_def generate_suggestions_def
  generate_facets_def bump_def category_list_def
lemmas ai_defs = process_search_query_def parse_reply_def degraded_result_def
lemmas fix_defs = demo_env_def env_of_def demo_store_def demo_text_score_def rec_A_def rec_B_def
  rec_C_def rec_D_def rec_E_def rec_F_def rec_G_def rec_H_def object_item_def
  oracle_object_with_data_def oracle_object_without_data_def env_with_oracle_def cosine_similarity_def cosine_value_def normalize_def vec_norm_def text_only_store_def
  down_store_def
lemmas all_defs = py_defs helper_defs store_defs service_defs orch_defs ai_defs fix_defs Let_def

lemma filter_min_score_eq:
  "filter_min_score m rs =
     (if list_all scored rs then Inr (filter (\<lambda>r. the (score r) \<ge> m) rs) else Inl TypeError)"
  by (induction rs) (auto simp: scored_def split: option.splits sum.splits)

lemma make_results_eq:
  "make_results q rs =
     (if list_all scored rs then Inr (map (result_of q) rs) else Inl ValidationError)"
  by (induction rs)
     (auto simp: scored_def make_result_def result_of_def split: option.splits sum.splits)

lemma length_generate_suggestions: "length (generate_suggestions E q rs) \<le> 5"
  by (simp add: generate_suggestions_def Let_def)

lemma length_jstr_list: "jstr_list vs = Some ss \<Longrightarrow> length ss = length vs"
  by (induction vs arbitrary: ss rule: jstr_list.induct) (auto split: option.splits)

text \<open>
  The try block in one equation: it raises when interpretation or retrieval raises, when
  some candidate is unscored, or when a suggestion is not a string; otherwise it builds
  the response from the candidates that pass the score floor.
\<close>

lemma hybrid_search_body_eq:
  "hybrid_search_body E q st f l ofs m =
     (case retrieve E q st f l ofs of
        Inl e \<Rightarrow> Inl e
      | Inr res0 \<Rightarrow>
          if list_all scored (data res0) then
            (case jstr_list (generate_suggestions E q (kept_records m res0)) of
               None \<Rightarrow> Inl ValidationError
             | Some suggs \<Rightarrow>
                 Inr \<lparr>query = q, search_type = st,
                      results = map (result_of q) (kept_records m res0),
                      total_count = page_total_count res0,
                      returned_count = int (length (kept_records m res0)),
                      offset = ofs, limit = l,
                      suggestions = suggs,
                      facets = generate_facets (kept_records m res0)\<rparr>)
          else Inl (if m > 0 then TypeError else ValidationError))"
  by (auto simp: hybrid_search_body_def apply_min_score_def kept_records_def
       filter_min_score_eq make_results_eq list_all_iff split: sum.splits option.splits)

lemma hybrid_search_eq:
  "hybrid_search E q st f l ofs m =
     (case retrieve E q st f l ofs of
        Inl e \<Rightarrow> empty_response q st l ofs
      | Inr res0 \<Rightarrow>
          if list_all scored (data res0) then
            (case jstr_list (generate_suggestions E q (kept_records m res0)) of
               None \<Rightarrow> empty_response q st l ofs
             | Some suggs \<Rightarrow>
                 \<lparr>query = q, search_type = st,
                  results = map (result_of q) (kept_records m res0),
                  total_count = page_total_count res0,
                  returned_count = int (length (kept_records m res0)),
                  offset = ofs, limit = l,
                  suggestions = suggs,
                  facets = generate_facets (kept_records m res0)\<rparr>)
          else empty_response q st l ofs)"
  by (simp add: hybrid_search_def hybrid_search_body_eq split: sum.splits option.splits)


text \<open>
  Claim C10. Every response of \<open>hybrid_search\<close>, the one of the \<open>except\<close> branch included,
  has \<open>returned_count\<close> equal to the length of \<open>results\<close>, echoes the caller's query,
  search type, offset and limit, and carries at most five suggestions.
\<close>

theorem response_envelope_invariant:
  "returned_count (hybrid_search E q st f l ofs m)
     = int (length (results (hybrid_search E q st f l ofs m)))
   \<and> query (hybrid_search E q st f l ofs m) = q
   \<and> search_type (hybrid_search E q st f l ofs m) = st
   \<and> offset (hybrid_search E q st f l ofs m) = ofs
   \<and> limit (hybrid_search E q st f l ofs m) = l
   \<and> length (suggestions (hybrid_search E q st f l ofs m)) \<le> 5"
proof -
  have "length ss \<le> 5" if "jstr_list (generate_suggestions E q rs) = Some ss" for rs ss
    using length_jstr_list[OF that] length_generate_suggestions[of E q rs] by simp
  then show ?thesis
    by (auto simp: hybrid_search_eq empty_response_def split: sum.splits option.splits)
qed

text \<open>
  Claim C2. An exception raised inside the semantic, fuzzy or exact strategy makes that
  strategy return what the keyword strategy returns for the same query, filters, limit
  and offset, and the keyword strategy is the store call itself. When the body of
  \<open>hybrid_search\<close> raises, the caller receives the empty envelope (no results, both
  counts zero, and no error field: the response type has none); in particular this is
  what every search type returns when every store call raises.
\<close>

theorem strategy_fallback_and_containment:
  "(semantic_body E q f l ofs = Inl e1 \<longrightarrow>
      semantic_search E q f l ofs = keyword_search E q f l ofs)
 \<and> (fuzzy_body E q f l ofs = Inl e2 \<longrightarrow>
      fuzzy_search E q f l ofs = keyword_search E q f l ofs)
 \<and> (exact_body E q f l ofs = Inl e3 \<longrightarrow>
      exact_search E q f l ofs = keyword_search E q f l ofs)
 \<and> keyword_search E q f l ofs = db_search_records E q f l ofs
 \<and> (hybrid_search_body E2 q2 st2 f2 l2 ofs2 m2 = Inl e4 \<longrightarrow>
      hybrid_search E2 q2 st2 f2 l2 ofs2 m2 =
        \<lparr>query = q2, search_type = st2, results = [], total_count = 0, returned_count = 0,
         offset = ofs2, limit = l2, suggestions = [], facets = []\<rparr>)
 \<and> ((\<forall>q' f' l' ofs'. isl (db_search_records E3 q' f' l' ofs')) \<longrightarrow>
      hybrid_search E3 q3 st3 f3 l3 ofs3 m3 =
        \<lparr>query = q3, search_type = st3, results = [], total_count = 0, returned_count = 0,
         offset = ofs3, limit = l3, suggestions = [], facets = []\<rparr>)"
proof -
  have store_down: "hybrid_search E3 q3 st3 f3 l3 ofs3 m3 = empty_response q3 st3 l3 ofs3"
    if down: "\<forall>q' f' l' ofs'. isl (db_search_records E3 q' f' l' ofs')"
  proof -
    have db: "\<exists>e. db_search_records E3 q' f' l' ofs' = Inl e" for q' f' l' ofs'
      using down unfolding isl_def by blast
    have kw: "\<exists>e. keyword_search E3 q' f' l' ofs' = Inl e" for q' f' l' ofs'
      using db by (simp add: keyword_search_def)
    have sem: "\<exists>e. semantic_search E3 q' f' l' ofs' = Inl e" for q' f' l' ofs'
      using db[of "[]" f' 1000 0] kw[of q' f' l' ofs']
      by (auto simp: semantic_search_def semantic_body_def split: sum.splits)
    have fzb: "\<exists>e. fuzzy_body E3 q' f' l' ofs' = Inl e" for q' f' l' ofs'
      unfolding fuzzy_body_def Let_def by (rule db)
    have fz: "\<exists>e. fuzzy_search E3 q' f' l' ofs' = Inl e" for q' f' l' ofs'
      using fzb[of q' f' l' ofs'] kw[of q' f' l' ofs']
      by (auto simp: fuzzy_search_def split: sum.splits)
    have exb: "\<exists>e. exact_body E3 q' f' l' ofs' = Inl e" for q' f' l' ofs'
      unfolding exact_body_def Let_def by (rule db)
    have ex: "\<exists>e. exact_search E3 q' f' l' ofs' = Inl e" for q' f' l' ofs'
      using exb[of q' f' l' ofs'] kw[of q' f' l' ofs']
      by (auto simp: exact_search_def split: sum.splits)
    have hy: "\<exists>e. hybrid_search_combined E3 q' f' l' ofs' = Inl e" for q' f' l' ofs'
      using kw[of q' f' "l' * 2" 0] kw[of q' f' l' ofs']
      by (auto simp: hybrid_search_combined_def hybrid_combined_body_def split: sum.splits)
    have "\<exists>e. dispatch E3 st3 pq f3 l3 ofs3 = Inl e" for pq
      using kw sem fz ex hy by (cases st3) (simp_all add: dispatch_def)
    then have "\<exists>e. retrieve E3 q3 st3 f3 l3 ofs3 = Inl e"
      by (auto simp: retrieve_def split: sum.splits)
    then show ?thesis by (auto simp: hybrid_search_eq)
  qed
  show ?thesis
    using store_down
    by (auto simp: semantic_search_def fuzzy_search_def exact_search_def keyword_search_def
          hybrid_search_def empty_response_def)
qed

text \<open>
  The hypotheses of C2 hold on concrete stores: one whose driver raises without a text
  condition (so the three strategies fall back and the keyword strategy answers), one
  with an unscored record (so result assembly raises), and one that is down.
\<close>

theorem strategy_fallback_and_containment_witness:
  "semantic_body (env_of (text_only_store [rec_A])) ''python'' None 10 0 = Inl StoreError
 \<and> semantic_search (env_of (text_only_store [rec_A])) ''python'' None 10 0
     = keyword_search (env_of (text_only_store [rec_A])) ''python'' None 10 0
 \<and> fuzzy_body (env_of (text_only_store [rec_A])) ''python'' None 10 0 = Inl StoreError
 \<and> fuzzy_search (env_of (text_only_store [rec_A])) ''python'' None 10 0
     = keyword_search (env_of (text_only_store [rec_A])) ''python'' None 10 0
 \<and> exact_body (env_of (text_only_store [rec_A])) ''python'' None 10 0 = Inl StoreError
 \<and> exact_search (env_of (text_only_store [rec_A])) ''python'' None 10 0
     = keyword_search (env_of (text_only_store [rec_A])) ''python'' None 10 0
 \<and> keyword_search (env_of (text_only_store [rec_A])) ''python'' None 10 0
     = Inr \<lparr>data = [rec_A\<lparr>score := Some (3 / 4)\<rparr>], page_total_count = 1, page_offset = 0,
            page_limit = 10, page_returned_count = 1\<rparr>
 \<and> hybrid_search_body (demo_env [rec_A]) [] KEYWORD None 10 0 0 = Inl ValidationError
 \<and> hybrid_search (demo_env [rec_A]) [] KEYWORD None 10 0 0 =
      \<lparr>query = [], search_type = KEYWORD, results = [], total_count = 0, returned_count = 0,
       offset = 0, limit = 10, suggestions = [], facets = []\<rparr>
 \<and> (\<forall>q' f' l' ofs'. isl (db_search_records (env_of down_store) q' f' l' ofs'))
 \<and> hybrid_search (env_of down_store) ''python'' HYBRID None 10 0 0 =
      \<lparr>query = ''python'', search_type = HYBRID, results = [], total_count = 0,
       returned_count = 0, offset = 0, limit = 10, suggestions = [], facets = []\<rparr>"
proof -
  let ?E = "env_of (text_only_store [rec_A])"
  have h1: "semantic_body ?E ''python'' None 10 0 = Inl StoreError"
    by (simp add: semantic_body_def store_defs fix_defs py_defs Let_def)
  have h2: "fuzzy_body ?E ''python'' None 10 0 = Inl StoreError"
    by (simp add: fuzzy_body_def store_defs fix_defs py_defs helper_defs or_clause_def
          regex_cond_def Let_def)
  have h3: "exact_body ?E ''python'' None 10 0 = Inl StoreError"
    by (simp add: exact_body_def store_defs fix_defs py_defs or_clause_def
          regex_cond_def Let_def)
  have kw: "keyword_search ?E ''python'' None 10 0
     = Inr \<lparr>data = [rec_A\<lparr>score := Some (3 / 4)\<rparr>], page_total_count = 1, page_offset = 0,
            page_limit = 10, page_returned_count = 1\<rparr>"
    by (simp add: keyword_search_def store_defs fix_defs py_defs Let_def)
  have h4: "hybrid_search_body (demo_env [rec_A]) [] KEYWORD None 10 0 0 = Inl ValidationError"
    by (simp add: orch_defs keyword_search_def store_defs fix_defs py_defs Let_def)
  have h5: "\<forall>q' f' l' ofs'. isl (db_search_records (env_of down_store) q' f' l' ofs')"
    by (simp add: env_of_def down_store_def search_records_def demo_store_def split: sum.splits)
  from strategy_fallback_and_containment[of ?E "''python''" None 10 0 StoreError StoreError StoreError
            "demo_env [rec_A]" "[]" KEYWORD None 10 0 0 ValidationError
            "env_of down_store" "''python''" HYBRID None 10 0 0]
       h1 h2 h3 h4 h5 kw
  show ?thesis by simp
qed







section \<open>Properties of the semantic strategy\<close>

lemma calculate_similarity_score_jaccard:
  "calculate_similarity_score text1 text2 = jaccard text1 text2"
proof -
  have len_inter: "length (filter (\<lambda>w. w \<in> set ys) (remdups xs)) = card (set xs \<inter> set ys)"
    for xs ys :: "string list"
  proof -
    have "set (filter (\<lambda>w. w \<in> set ys) (remdups xs)) = set xs \<inter> set ys" by auto
    moreover have "distinct (filter (\<lambda>w. w \<in> set ys) (remdups xs))" by simp
    ultimately show ?thesis by (metis distinct_card)
  qed
  have len_union:
    "length (remdups xs @ filter (\<lambda>w. w \<notin> set (remdups xs)) (remdups ys)) = card (set xs \<union> set ys)"
    for xs ys :: "string list"
  proof -
    have "set (remdups xs @ filter (\<lambda>w. w \<notin> set (remdups xs)) (remdups ys)) = set xs \<union> set ys"
      by auto
    moreover have "distinct (remdups xs @ filter (\<lambda>w. w \<notin> set (remdups xs)) (remdups ys))"
      by auto
    ultimately show ?thesis by (metis distinct_card)
  qed
  have empty_split: "py_split (py_lower []) = []"
    by (simp add: py_split_def py_lower_def)
  show ?thesis
  proof (cases "text1 = [] \<or> text2 = []")
    case True
    then show ?thesis
      by (auto simp: calculate_similarity_score_def jaccard_def Let_def empty_split)
  next
    case False
    then show ?thesis
      unfolding calculate_similarity_score_def jaccard_def Let_def len_inter len_union
      by auto
  qed
qed

lemma py_sorted_desc_scored:
  "list_all (\<lambda>x. key x \<noteq> None) xs \<Longrightarrow>
     py_sorted_desc key xs = Inr (sort_key (\<lambda>x. - the (key x)) xs)"
proof (cases xs)
  case Nil
  then show ?thesis by (simp add: py_sorted_desc_def)
next
  case (Cons x ys)
  assume a: "list_all (\<lambda>x. key x \<noteq> None) xs"
  show ?thesis
  proof (cases ys)
    case Nil
    with Cons show ?thesis by (simp add: py_sorted_desc_def)
  next
    case (Cons y zs)
    with \<open>xs = x # ys\<close> a show ?thesis
      by (auto simp: py_sorted_desc_def list_ex_iff list_all_iff)
  qed
qed

lemma score_records_eq:
  "list_all (\<lambda>r. has_embedding r \<longrightarrow> sk_cosine_similarity E qe (the (embedding r)) = Inr (csim qe (the (embedding r)))) rs
   \<Longrightarrow> score_records E q qe rs = Inr (map (semantic_scored csim q qe) rs)"
  by (induction rs)
     (auto simp: semantic_scored_def calculate_similarity_score_jaccard text_content_def)

lemma py_slice_window:
  assumes "0 \<le> i" and "0 \<le> l"
  shows "py_slice xs i (i + l) = take (nat l) (drop (nat i) xs)"
proof (cases "i \<le> int (length xs)")
  case True
  show ?thesis
  proof (cases "i + l \<le> int (length xs)")
    case True
    from assms have "nat (i + l) - nat i = nat l" by linarith
    with True \<open>i \<le> int (length xs)\<close> assms show ?thesis
      by (simp add: py_slice_def slice_bound_def Let_def min_def)
  next
    case False
    from False True assms have "length xs - nat i \<le> nat l" by linarith
    then have "take (nat l) (drop (nat i) xs) = drop (nat i) xs" by simp
    moreover from False True assms
    have "py_slice xs i (i + l) = take (length xs - nat i) (drop (nat i) xs)"
      by (simp add: py_slice_def slice_bound_def Let_def min_def)
    ultimately show ?thesis by simp
  qed
next
  case False
  with assms show ?thesis
    by (simp add: py_slice_def slice_bound_def Let_def min_def)
qed

text \<open>
  Claim C5. When the query embedding is produced, the store returns the candidate window
  and the cosine similarity \<open>csim\<close> is returned for every record of the window that has
  an embedding, the semantic strategy scores every record of the window (cosine
  similarity with an embedding, Jaccard similarity of the query and title plus
  description without one: no hypothesis concerns the records without an embedding, and
  none is dropped), sorts the scored records by descending score, returns the slice
  \<open>[offset : offset + limit]\<close> of the whole sorted list, and reports the size of the
  whole scored list as \<open>total_count\<close>. For an offset and a limit that are not negative
  the slice is the whole sorted list without its first \<open>offset\<close> records, cut to its
  first \<open>limit\<close> records.
\<close>

theorem semantic_scoring_and_paging:
  assumes emb: "ai_generate_embeddings E q = Inr qe"
    and db: "db_search_records E [] f 1000 0 = Inr window"
    and csim: "list_all (\<lambda>r. has_embedding r \<longrightarrow>
                 sk_cosine_similarity E qe (the (embedding r)) = Inr (csim qe (the (embedding r))))
               (data window)"
  shows "semantic_search E q f l ofs =
           Inr \<lparr>data = py_slice (sort_key (\<lambda>r. - the (score r))
                                   (map (semantic_scored csim q qe) (data window))) ofs (ofs + l),
                page_total_count = int (length (data window)),
                page_offset = ofs, page_limit = l,
                page_returned_count =
                  int (length (py_slice (sort_key (\<lambda>r. - the (score r))
                                   (map (semantic_scored csim q qe) (data window))) ofs (ofs + l)))\<rparr>
       \<and> (0 \<le> ofs \<and> 0 \<le> l \<longrightarrow>
            semantic_search E q f l ofs =
              Inr \<lparr>data = take (nat l) (drop (nat ofs)
                             (sort_key (\<lambda>r. - the (score r))
                                (map (semantic_scored csim q qe) (data window)))),
                   page_total_count = int (length (data window)),
                   page_offset = ofs, page_limit = l,
                   page_returned_count =
                     int (min (nat l) (length (data window) - nat ofs))\<rparr>)"
proof -
  have sc: "score_records E q qe (data window) = Inr (map (semantic_scored csim q qe) (data window))"
    using csim by (rule score_records_eq)
  have all: "list_all (\<lambda>x. score x \<noteq> None) (map (semantic_scored csim q qe) (data window))"
    by (simp add: list_all_iff semantic_scored_def)
  have a: "semantic_search E q f l ofs =
           Inr \<lparr>data = py_slice (sort_key (\<lambda>r. - the (score r))
                                   (map (semantic_scored csim q qe) (data window))) ofs (ofs + l),
                page_total_count = int (length (data window)),
                page_offset = ofs, page_limit = l,
                page_returned_count =
                  int (length (py_slice (sort_key (\<lambda>r. - the (score r))
                                   (map (semantic_scored csim q qe) (data window))) ofs (ofs + l)))\<rparr>"
    by (simp add: semantic_search_def semantic_body_def emb db sc py_sorted_desc_scored[OF all]
          Let_def)
  have b: "semantic_search E q f l ofs =
              Inr \<lparr>data = take (nat l) (drop (nat ofs)
                             (sort_key (\<lambda>r. - the (score r))
                                (map (semantic_scored csim q qe) (data window)))),
                   page_total_count = int (length (data window)),
                   page_offset = ofs, page_limit = l,
                   page_returned_count =
                     int (min (nat l) (length (data window) - nat ofs))\<rparr>"
    if "0 \<le> ofs" "0 \<le> l"
    unfolding a py_slice_window[OF that] by (simp add: min_def)
  from a b show ?thesis by blast
qed

text \<open>
  The hypotheses of C5 on a store of three records, one with a stored embedding and two
  without, at offset 1 and limit 1: the records are scored \<open>1/2\<close> and \<open>0\<close> (Jaccard
  similarity) and \<open>-1\<close> (cosine similarity), the page holds the second of the three in
  descending order, and \<open>total_count\<close> is 3.
\<close>

theorem semantic_scoring_and_paging_witness:
  "ai_generate_embeddings (demo_env [rec_A, rec_B, rec_D]) ''python'' = Inr [1]
 \<and> db_search_records (demo_env [rec_A, rec_B, rec_D]) [] None 1000 0
     = Inr \<lparr>data = [rec_D, rec_B, rec_A], page_total_count = 3, page_offset = 0,
            page_limit = 1000, page_returned_count = 3\<rparr>
 \<and> list_all (\<lambda>r. has_embedding r \<longrightarrow>
        sk_cosine_similarity (demo_env [rec_A, rec_B, rec_D]) [1] (the (embedding r))
          = Inr (cosine_value [1] (the (embedding r)))) [rec_D, rec_B, rec_A]
 \<and> (0 :: int) \<le> 1
 \<and> semantic_search (demo_env [rec_A, rec_B, rec_D]) ''python'' None 1 1
     = Inr \<lparr>data = take (nat 1) (drop (nat 1)
                     (sort_key (\<lambda>r. - the (score r))
                        (map (semantic_scored cosine_value ''python'' [1])
                           [rec_D, rec_B, rec_A]))),
            page_total_count = int (length [rec_D, rec_B, rec_A]),
            page_offset = 1, page_limit = 1,
            page_returned_count = int (min (nat 1) (length [rec_D, rec_B, rec_A] - nat 1))\<rparr>
 \<and> sort_key (\<lambda>r. - the (score r))
       (map (semantic_scored cosine_value ''python'' [1]) [rec_D, rec_B, rec_A])
     = [rec_A\<lparr>score := Some (1 / 2)\<rparr>, rec_B\<lparr>score := Some 0\<rparr>,
        rec_D\<lparr>score := Some (- 1)\<rparr>]
 \<and> semantic_search (demo_env [rec_A, rec_B, rec_D]) ''python'' None 1 1
     = Inr \<lparr>data = [rec_B\<lparr>score := Some 0\<rparr>],
            page_total_count = 3, page_offset = 1, page_limit = 1,
            page_returned_count = 1\<rparr>"
proof -
  let ?E = "demo_env [rec_A, rec_B, rec_D]"
  let ?w = "\<lparr>data = [rec_D, rec_B, rec_A], page_total_count = 3, page_offset = 0,
            page_limit = 1000, page_returned_count = 3\<rparr>"
  have h1: "ai_generate_embeddings ?E ''python'' = Inr [1]"
    by (simp add: fix_defs)
  have h2: "db_search_records ?E [] None 1000 0 = Inr ?w"
    by (simp add: store_defs fix_defs py_defs Let_def)
  have h3: "list_all (\<lambda>r. has_embedding r \<longrightarrow>
        sk_cosine_similarity ?E [1] (the (embedding r))
          = Inr (cosine_value [1] (the (embedding r)))) (data ?w)"
    by (simp add: fix_defs has_embedding_def)
  have h4: "(0 :: int) \<le> 1" by simp
  have dw: "data ?w = [rec_D, rec_B, rec_A]" by simp
  note c = semantic_scoring_and_paging[where csim = cosine_value and l = 1 and ofs = 1,
             OF h1 h2 h3]
  from c h4
  have c2: "semantic_search ?E ''python'' None 1 1
     = Inr \<lparr>data = take (nat 1) (drop (nat 1)
                     (sort_key (\<lambda>r. - the (score r))
                        (map (semantic_scored cosine_value ''python'' [1]) (data ?w)))),
            page_total_count = int (length (data ?w)),
            page_offset = 1, page_limit = 1,
            page_returned_count = int (min (nat 1) (length (data ?w) - nat 1))\<rparr>"
    by blast
  have srt: "sort_key (\<lambda>r. - the (score r))
       (map (semantic_scored cosine_value ''python'' [1]) [rec_D, rec_B, rec_A])
     = [rec_A\<lparr>score := Some (1 / 2)\<rparr>, rec_B\<lparr>score := Some 0\<rparr>,
        rec_D\<lparr>score := Some (- 1)\<rparr>]"
    by (simp add: all_defs semantic_scored_def calculate_similarity_score_jaccard[symmetric])
  have v: "semantic_search ?E ''python'' None 1 1
     = Inr \<lparr>data = [rec_B\<lparr>score := Some 0\<rparr>],
            page_total_count = 3, page_offset = 1, page_limit = 1,
            page_returned_count = 1\<rparr>"
    unfolding c2 dw srt by simp
  from h1 h2 h3[unfolded dw] h4 c2[unfolded dw] srt v show ?thesis by blast
qed

section \<open>Properties of hybrid fusion\<close>









lemma set_py_slice: "set (py_slice xs i j) \<subseteq> set xs"
  unfolding py_slice_def Let_def
  by (meson set_take_subset set_drop_subset subset_trans)



text \<open>
  Claim C1 (fused pool, slice and \<open>total_count\<close> for every hybrid search) at a blank
  query. The store then assigns no text score, \<open>score * 1.2\<close> raises \<open>TypeError\<close> on
  the first keyword candidate (the default of \<open>getattr(record, 'score', 0.5)\<close> is never
  taken, since the attribute exists with value \<open>None\<close>), and the \<open>except\<close> branch returns
  the store's own page: one unscored record and the store's total of 4, where the fused
  pool of the two candidate lists has the 2 ids F and E. The entry point then fails to
  build a result from the unscored record and returns the empty envelope.
\<close>

theorem hybrid_blank_query_not_fused:
  "keyword_search (demo_env [rec_A, rec_B, rec_E, rec_F]) [] None 2 0
     = Inr \<lparr>data = [rec_F, rec_E], page_total_count = 4, page_offset = 0, page_limit = 2,
            page_returned_count = 2\<rparr>
 \<and> semantic_search (demo_env [rec_A, rec_B, rec_E, rec_F]) [] None 2 0
     = Inr \<lparr>data = [rec_F\<lparr>score := Some 0\<rparr>, rec_E\<lparr>score := Some 0\<rparr>],
            page_total_count = 4, page_offset = 0, page_limit = 2, page_returned_count = 2\<rparr>
 \<and> add_keyword [] [rec_F, rec_E] = Inl TypeError
 \<and> hybrid_search_combined (demo_env [rec_A, rec_B, rec_E, rec_F]) [] None 1 0
     = Inr \<lparr>data = [rec_F], page_total_count = 4, page_offset = 0, page_limit = 1,
            page_returned_count = 1\<rparr>
 \<and> hybrid_search (demo_env [rec_A, rec_B, rec_E, rec_F]) [] HYBRID None 1 0 0
     = \<lparr>query = [], search_type = HYBRID, results = [], total_count = 0, returned_count = 0,
        offset = 0, limit = 1, suggestions = [], facets = []\<rparr>"
  by (simp add: all_defs)




section \<open>Properties of the highlights\<close>

lemma replace_from_skip:
  "length xs = n \<Longrightarrow> replace_from old new n (xs @ t) = replace_from old new 0 t"
proof (induction xs arbitrary: n)
  case Nil
  then show ?case by simp
next
  case (Cons x xs)
  then obtain m where "n = Suc m" "length xs = m" by (cases n) auto
  with Cons.IH[of m] show ?case by simp
qed

lemma replace_from_match:
  assumes "k \<noteq> []"
  shows "replace_from k new 0 (k @ t) = new @ replace_from k new 0 t"
proof -
  from assms obtain c cs where k: "k = c # cs" by (cases k) auto
  have "replace_from k new 0 (k @ t) = new @ replace_from k new (length k - 1) (cs @ t)"
    by (simp add: k)
  also have "replace_from k new (length k - 1) (cs @ t) = replace_from k new 0 t"
    by (rule replace_from_skip) (simp add: k)
  finally show ?thesis .
qed

lemma replace_first_occurrence:
  assumes "k \<noteq> []"
    and "\<forall>i<length p. take (length k) (drop i (p @ k @ t)) \<noteq> k"
  shows "py_replace (p @ k @ t) k new = p @ new @ py_replace t k new"
proof -
  have "replace_from k new 0 (p @ k @ t) = p @ new @ replace_from k new 0 t"
    using assms(2)
  proof (induction p)
    case Nil
    show ?case using replace_from_match[OF assms(1)] by simp
  next
    case (Cons c p)
    have here: "take (length k) ((c # p) @ k @ t) \<noteq> k"
      using Cons.prems by (metis drop0 length_greater_0_conv list.simps(3) length_0_conv)
    have later: "\<forall>i<length p. take (length k) (drop i (p @ k @ t)) \<noteq> k"
    proof (intro allI impI)
      fix i assume "i < length p"
      then have "Suc i < length (c # p)" by simp
      with Cons.prems have "take (length k) (drop (Suc i) ((c # p) @ k @ t)) \<noteq> k" by blast
      then show "take (length k) (drop i (p @ k @ t)) \<noteq> k" by simp
    qed
    from Cons.IH[OF later] here show ?case by simp
  qed
  with assms(1) show ?thesis by (simp add: py_replace_def)
qed

lemma set_fold_set_add: "set (fold set_add xs acc) = set acc \<union> set xs"
  by (induction xs arbitrary: acc) (auto simp: set_add_def)

lemma extract_keywords_nonempty:
  assumes "k \<in> set (extract_keywords q)"
  shows "3 \<le> length k \<and> k \<notin> set stop_words"
proof -
  from assms have "k \<in> set (fold set_add
      (filter (\<lambda>w. w \<notin> set stop_words) (findall_words (py_lower q))) [])"
    unfolding extract_keywords_def Let_def by (meson in_set_takeD)
  then show ?thesis by (auto simp: set_fold_set_add findall_words_def)
qed

lemma generate_highlights_title:
  "map_of (generate_highlights r q) ''title'' =
     (if hit_keywords q (title r) = [] then None
      else Some (map (\<lambda>k. py_replace (title r) k (mark k)) (hit_keywords q (title r))))"
  by (auto simp: generate_highlights_def field_highlights_def hit_keywords_def Let_def
      split: option.splits)

lemma generate_highlights_description:
  "map_of (generate_highlights r q) ''description'' =
     (case description r of
        None \<Rightarrow> None
      | Some d \<Rightarrow>
          if d = [] then None
          else if hit_keywords q d = [] then None
          else Some (map (\<lambda>k. py_replace d k (mark k)) (hit_keywords q d)))"
  by (auto simp: generate_highlights_def field_highlights_def hit_keywords_def Let_def
      split: option.splits)

lemma generate_highlights_keys:
  "set (map fst (generate_highlights r q)) \<subseteq> {''title'', ''description''}"
  by (auto simp: generate_highlights_def Let_def split: option.splits if_splits)

lemma replace_no_occurrence:
  "k \<noteq> [] \<Longrightarrow> \<not> py_in k t \<Longrightarrow> replace_from k new 0 t = t"
  by (induction t) auto

lemma replace_last_occurrence:
  assumes "k \<noteq> []"
    and "\<forall>i<length p. take (length k) (drop i (p @ k @ t)) \<noteq> k"
    and "\<not> py_in k t"
  shows "py_replace (p @ k @ t) k new = p @ new @ t"
proof -
  have "py_replace t k new = t"
    using assms(1,3) by (simp add: py_replace_def replace_no_occurrence)
  with replace_first_occurrence[OF assms(1,2), of new] show ?thesis by simp
qed

lemma py_in_lower: "py_in sub s \<Longrightarrow> py_in (py_lower sub) (py_lower s)"
proof (induction s)
  case Nil
  then show ?case by (simp add: py_lower_def)
next
  case (Cons c cs)
  from Cons.prems have "take (length sub) (c # cs) = sub \<or> py_in sub cs" by simp
  then show ?case
  proof
    assume "take (length sub) (c # cs) = sub"
    then have "map lower_char (take (length sub) (c # cs)) = map lower_char sub" by simp
    then have "take (length sub) (map lower_char (c # cs)) = map lower_char sub"
      by (simp only: take_map)
    then show ?thesis by (simp add: py_lower_def)
  next
    assume "py_in sub cs"
    from Cons.IH[OF this] show ?thesis by (simp add: py_lower_def)
  qed
qed

lemma literal_hits_filter:
  "literal_hits q text = filter (\<lambda>k. py_in k text) (hit_keywords q text)"
proof -
  have "(py_in (py_lower k) (py_lower text) \<and> py_in k text) = py_in k text" for k
    using py_in_lower by blast
  then show ?thesis by (simp add: literal_hits_def hit_keywords_def)
qed

lemma highlight_field_entries:
  assumes "(fld, text) \<in> set (highlight_fields r)"
  shows "map_of (generate_highlights r q) fld =
     (if hit_keywords q text = [] then None
      else Some (map (\<lambda>k. py_replace text k (mark k)) (hit_keywords q text)))"
proof -
  from assms consider
      (t) "fld = ''title''" "text = title r"
    | (d) "fld = ''description''" "description r = Some text" "text \<noteq> []"
    by (auto simp: highlight_fields_def split: option.splits if_splits)
  then show ?thesis
  proof cases
    case t
    then show ?thesis by (simp add: generate_highlights_title)
  next
    case d
    then show ?thesis by (simp add: generate_highlights_description)
  qed
qed

lemma generate_highlights_fields:
  "fst ` set (generate_highlights r q) \<subseteq> fst ` set (highlight_fields r)"
proof (cases "description r")
  case None
  then show ?thesis by (auto simp: generate_highlights_def highlight_fields_def Let_def)
next
  case (Some d)
  then show ?thesis
    by (cases "d = []") (auto simp: generate_highlights_def highlight_fields_def Let_def)
qed

text \<open>
  Claim C6, amended. Every returned result carries the highlights computed from its
  title, its description and the original query. Highlights have entries only for the
  title and for a description that is present and not empty. A field in which no keyword
  of the query occurs, ignoring case, has no entry. For a field in which keywords of the
  query occur as they are, the field's list holds, in keyword order, one variant of the
  field's text for each such keyword, in which every literal occurrence of the keyword
  is wrapped in the marker and the rest of the text is kept; when every keyword that
  occurs ignoring case occurs as it is, these variants are the whole list. Nothing is
  said of a keyword that occurs in another case only.
\<close>

theorem highlights_literal_occurrences:
  "(x \<in> set (results (hybrid_search E q st f l ofs m)) \<longrightarrow>
      (\<exists>r. sr_title x = title r \<and> sr_description x = description r
            \<and> sr_highlights x = generate_highlights r q))
 \<and> fst ` set (generate_highlights r q) \<subseteq> fst ` set (highlight_fields r)
 \<and> ((efld, etext) \<in> set (highlight_fields r) \<and> hit_keywords q etext = [] \<longrightarrow>
      map_of (generate_highlights r q) efld = None)
 \<and> ((fld, ftext) \<in> set (highlight_fields r) \<and> literal_hits q ftext \<noteq> [] \<longrightarrow>
      (\<exists>hs. map_of (generate_highlights r q) fld = Some hs
         \<and> subseq (map (\<lambda>k. py_replace ftext k (mark k)) (literal_hits q ftext)) hs
         \<and> (hit_keywords q ftext = literal_hits q ftext \<longrightarrow>
              hs = map (\<lambda>k. py_replace ftext k (mark k)) (literal_hits q ftext))))
 \<and> (k \<in> set (extract_keywords q) \<and>
      (\<forall>i<length p. take (length k) (drop i (p @ k @ t)) \<noteq> k) \<longrightarrow>
      py_replace (p @ k @ t) k (mark k) = p @ mark k @ py_replace t k (mark k))
 \<and> (kz \<in> set (extract_keywords q) \<and>
      (\<forall>i<length pz. take (length kz) (drop i (pz @ kz @ tz)) \<noteq> kz) \<and> \<not> py_in kz tz \<longrightarrow>
      py_replace (pz @ kz @ tz) kz (mark kz) = pz @ mark kz @ tz)"
proof -
  have a: "x \<in> set (results (hybrid_search E q st f l ofs m)) \<longrightarrow>
      (\<exists>r. sr_title x = title r \<and> sr_description x = description r
            \<and> sr_highlights x = generate_highlights r q)"
    by (auto simp: hybrid_search_eq empty_response_def result_of_def
        split: sum.splits option.splits if_splits)
  have b: "(efld, etext) \<in> set (highlight_fields r) \<and> hit_keywords q etext = [] \<longrightarrow>
      map_of (generate_highlights r q) efld = None"
  proof (intro impI, elim conjE)
    assume "(efld, etext) \<in> set (highlight_fields r)" and "hit_keywords q etext = []"
    then show "map_of (generate_highlights r q) efld = None"
      using highlight_field_entries[of efld etext r q] by simp
  qed
  have c: "(fld, ftext) \<in> set (highlight_fields r) \<and> literal_hits q ftext \<noteq> [] \<longrightarrow>
      (\<exists>hs. map_of (generate_highlights r q) fld = Some hs
         \<and> subseq (map (\<lambda>k. py_replace ftext k (mark k)) (literal_hits q ftext)) hs
         \<and> (hit_keywords q ftext = literal_hits q ftext \<longrightarrow>
              hs = map (\<lambda>k. py_replace ftext k (mark k)) (literal_hits q ftext)))"
  proof (intro impI, elim conjE)
    assume fld: "(fld, ftext) \<in> set (highlight_fields r)" and lit: "literal_hits q ftext \<noteq> []"
    let ?g = "\<lambda>k. py_replace ftext k (mark k)"
    from lit have hit: "hit_keywords q ftext \<noteq> []"
      unfolding literal_hits_filter by auto
    have e: "map_of (generate_highlights r q) fld = Some (map ?g (hit_keywords q ftext))"
      using highlight_field_entries[OF fld, of q] hit by simp
    have s: "subseq (map ?g (literal_hits q ftext)) (map ?g (hit_keywords q ftext))"
      unfolding literal_hits_filter by (rule subseq_map) simp
    from e s show "\<exists>hs. map_of (generate_highlights r q) fld = Some hs
         \<and> subseq (map ?g (literal_hits q ftext)) hs
         \<and> (hit_keywords q ftext = literal_hits q ftext \<longrightarrow> hs = map ?g (literal_hits q ftext))"
      by auto
  qed
  have d: "k \<in> set (extract_keywords q) \<and>
      (\<forall>i<length p. take (length k) (drop i (p @ k @ t)) \<noteq> k) \<longrightarrow>
      py_replace (p @ k @ t) k (mark k) = p @ mark k @ py_replace t k (mark k)"
  proof (intro impI, elim conjE)
    assume k: "k \<in> set (extract_keywords q)"
      and first: "\<forall>i<length p. take (length k) (drop i (p @ k @ t)) \<noteq> k"
    from extract_keywords_nonempty[OF k] have "k \<noteq> []" by auto
    then show "py_replace (p @ k @ t) k (mark k) = p @ mark k @ py_replace t k (mark k)"
      using first by (rule replace_first_occurrence)
  qed
  have e: "kz \<in> set (extract_keywords q) \<and>
      (\<forall>i<length pz. take (length kz) (drop i (pz @ kz @ tz)) \<noteq> kz) \<and> \<not> py_in kz tz \<longrightarrow>
      py_replace (pz @ kz @ tz) kz (mark kz) = pz @ mark kz @ tz"
  proof (intro impI, elim conjE)
    assume k: "kz \<in> set (extract_keywords q)"
      and first: "\<forall>i<length pz. take (length kz) (drop i (pz @ kz @ tz)) \<noteq> kz"
      and last: "\<not> py_in kz tz"
    from extract_keywords_nonempty[OF k] have "kz \<noteq> []" by auto
    then show "py_replace (pz @ kz @ tz) kz (mark kz) = pz @ mark kz @ tz"
      using first last by (rule replace_last_occurrence)
  qed
  from a b c d e generate_highlights_fields show ?thesis by blast
qed

text \<open>
  Claim C6 as stated fails on a title with two literal occurrences of the keyword: the
  only entry has both occurrences wrapped, and the variant with the first occurrence
  alone wrapped is not among the highlights of the returned result.
\<close>

theorem highlights_first_occurrence_counterexample:
  "extract_keywords ''python'' = [''python'']
 \<and> py_in (py_lower ''python'') (py_lower (title rec_G))
 \<and> map sr_highlights (results (hybrid_search (demo_env [rec_G]) ''python'' KEYWORD None 10 0 0))
     = [[(''title'', [''learn <mark>python</mark> with <mark>python</mark> today''])]]
 \<and> ''learn <mark>python</mark> with python today''
     \<notin> set (the (map_of (generate_highlights rec_G ''python'') ''title''))"
  by (simp add: all_defs)

text \<open>
  The hypotheses of the amended C6 on a returned record whose title has the keyword
  \<open>learn\<close> once and the keyword \<open>python\<close> twice and whose description has neither: the
  title's list is the two variants, the second with both occurrences wrapped, and the
  description has no entry.
\<close>

theorem highlights_literal_occurrences_witness:
  "result_of ''learn python'' (rec_G\<lparr>score := Some (1 / 2)\<rparr>)
     \<in> set (results (hybrid_search (demo_env [rec_G]) ''learn python'' KEYWORD None 10 0 0))
 \<and> (\<exists>r. sr_title (result_of ''learn python'' (rec_G\<lparr>score := Some (1 / 2)\<rparr>)) = title r
        \<and> sr_description (result_of ''learn python'' (rec_G\<lparr>score := Some (1 / 2)\<rparr>))
            = description r
        \<and> sr_highlights (result_of ''learn python'' (rec_G\<lparr>score := Some (1 / 2)\<rparr>))
            = generate_highlights r ''learn python'')
 \<and> (''description'', ''weekly notes'') \<in> set (highlight_fields rec_G)
 \<and> hit_keywords ''learn python'' ''weekly notes'' = []
 \<and> map_of (generate_highlights rec_G ''learn python'') ''description'' = None
 \<and> (''title'', ''learn python with python today'') \<in> set (highlight_fields rec_G)
 \<and> literal_hits ''learn python'' ''learn python with python today'' = [''learn'', ''python'']
 \<and> hit_keywords ''learn python'' ''learn python with python today'' = [''learn'', ''python'']
 \<and> map_of (generate_highlights rec_G ''learn python'') ''title''
     = Some (map (\<lambda>k. py_replace ''learn python with python today'' k (mark k))
               (literal_hits ''learn python'' ''learn python with python today''))
 \<and> ''python'' \<in> set (extract_keywords ''learn python'')
 \<and> py_replace (''learn '' @ ''python'' @ '' with python today'') ''python'' (mark ''python'')
     = ''learn '' @ mark ''python''
       @ py_replace '' with python today'' ''python'' (mark ''python'')
 \<and> ''learn'' \<in> set (extract_keywords ''learn python'')
 \<and> \<not> py_in ''learn'' '' python with python today''
 \<and> py_replace ([] @ ''learn'' @ '' python with python today'') ''learn'' (mark ''learn'')
     = [] @ mark ''learn'' @ '' python with python today''
 \<and> map_of (generate_highlights rec_G ''learn python'') ''title''
     = Some [''<mark>learn</mark> python with python today'',
             ''learn <mark>python</mark> with <mark>python</mark> today'']"
proof -
  let ?q = "''learn python''"
  let ?T = "''learn python with python today''"
  let ?x = "result_of ?q (rec_G\<lparr>score := Some (1 / 2)\<rparr>)"
  let ?E = "demo_env [rec_G]"
  have ret: "retrieve ?E ?q KEYWORD None 10 0
     = Inr \<lparr>data = [rec_G\<lparr>score := Some (1 / 2)\<rparr>], page_total_count = 1, page_offset = 0,
            page_limit = 10, page_returned_count = 1\<rparr>"
    by (simp add: retrieve_def process_query_def dispatch_def keyword_search_def store_defs
          fix_defs py_defs Let_def)
  have sg: "generate_suggestions ?E ?q [rec_G\<lparr>score := Some (1 / 2)\<rparr>] = []"
    by (simp add: generate_suggestions_def category_list_def set_add_def fix_defs Let_def)
  have h1: "?x \<in> set (results (hybrid_search ?E ?q KEYWORD None 10 0 0))"
    by (simp add: hybrid_search_eq ret scored_def kept_records_def sg)
  have kw: "extract_keywords ?q = [''learn'', ''python'']"
    by (simp add: helper_defs py_defs Let_def)
  have h2: "(''description'', ''weekly notes'') \<in> set (highlight_fields rec_G)"
    by (simp add: highlight_fields_def rec_G_def)
  have h3: "hit_keywords ?q ''weekly notes'' = []"
    by (simp add: hit_keywords_def kw py_defs)
  have h4: "(''title'', ?T) \<in> set (highlight_fields rec_G)"
    by (simp add: highlight_fields_def rec_G_def)
  have h5: "literal_hits ?q ?T = [''learn'', ''python'']"
    by (simp add: literal_hits_def kw)
  have h6: "hit_keywords ?q ?T = [''learn'', ''python'']"
    by (simp add: hit_keywords_def kw py_defs)
  have h7: "''python'' \<in> set (extract_keywords ?q)" and h8: "''learn'' \<in> set (extract_keywords ?q)"
    by (simp_all add: kw)
  have h9: "\<forall>i<length ''learn ''.
              take (length ''python'') (drop i (''learn '' @ ''python'' @ '' with python today''))
                \<noteq> ''python''"
    by (simp add: All_less_Suc)
  have h10: "\<forall>i<length ([] :: string).
              take (length ''learn'') (drop i ([] @ ''learn'' @ '' python with python today''))
                \<noteq> ''learn''"
    by simp
  have h11: "\<not> py_in ''learn'' '' python with python today''"
    by simp
  have v: "map_of (generate_highlights rec_G ?q) ''title''
     = Some [''<mark>learn</mark> python with python today'',
             ''learn <mark>python</mark> with <mark>python</mark> today'']"
    by (simp add: all_defs)
  have ne: "literal_hits ?q ?T \<noteq> []" and eq: "hit_keywords ?q ?T = literal_hits ?q ?T"
    by (simp_all add: h5 h6)
  note c = highlights_literal_occurrences[where x = "?x" and E = "?E" and q = "?q"
      and st = KEYWORD and f = None and l = 10 and ofs = 0 and m = 0 and r = rec_G
      and efld = "''description''" and etext = "''weekly notes''"
      and fld = "''title''" and ftext = "?T"
      and k = "''python''" and p = "''learn ''" and t = "'' with python today''"
      and kz = "''learn''" and pz = "[]" and tz = "'' python with python today''"]
  from c h1 h2 h3 h4 ne eq h7 h8 h9 h10 h11 h5 h6 v show ?thesis by blast
qed

text \<open>
  A keyword that occurs in another case only: the test ignores case, the replacement
  does not, so the entry is the unchanged text without a marker. The amended C6
  leaves this case out.
\<close>

lemma highlights_case_only_hit:
  "hit_keywords ''python'' (title rec_A) = [''python'']
 \<and> literal_hits ''python'' (title rec_A) = []
 \<and> generate_highlights rec_A ''python'' = [(''title'', [''Python Engineer''])]
 \<and> \<not> py_in ''<mark>'' ''Python Engineer''"
  by (simp add: all_defs hit_keywords_def literal_hits_def)

section \<open>Properties of the query interpreter\<close>








section \<open>Soft-delete exclusion\<close>

lemma add_date_range_status:
  "add_date_range mc rng = Inr mc' \<Longrightarrow> map_of mc' ''status'' = map_of mc ''status''"
  by (auto simp: add_date_range_def Let_def update_conv' split: option.splits jvalue.splits)

lemma add_filter_status:
  "add_filter mc kv = Inr mc' \<Longrightarrow> fst kv \<noteq> ''status'' \<Longrightarrow>
   map_of mc' ''status'' = map_of mc ''status''"
  by (cases "(mc, kv)" rule: add_filter.cases)
     (auto simp: update_conv' add_date_range_status split: if_splits)

lemma add_filters_status:
  "add_filters mc kvs = Inr mc' \<Longrightarrow> ''status'' \<notin> fst ` set kvs \<Longrightarrow>
   map_of mc' ''status'' = map_of mc ''status''"
proof (induction kvs arbitrary: mc)
  case Nil
  then show ?case by simp
next
  case (Cons kv kvs)
  from Cons.prems(1) obtain mc1 where s1: "add_filter mc kv = Inr mc1"
    and s2: "add_filters mc1 kvs = Inr mc'"
    by (auto split: sum.splits)
  from Cons.prems(2) have "fst kv \<noteq> ''status''" "''status'' \<notin> fst ` set kvs" by auto
  with Cons.IH[OF s2] add_filter_status[OF s1] show ?case by simp
qed

lemma match_conditions_status:
  assumes "match_conditions q filters = Inr mc"
    and "''status'' \<notin> fst ` set (copy_filters filters)"
  shows "map_of mc ''status'' = Some (JObj [(''$ne'', JStr ''deleted'')])"
  using add_filters_status[OF assms(1)[unfolded match_conditions_def Let_def] assms(2)]
  by (simp add: update_conv')

lemma match_doc_not_deleted:
  assumes "map_of mc ''status'' = Some (JObj [(''$ne'', JStr ''deleted'')])"
    and "match_doc S mc d"
  shows "status d \<noteq> DELETED"
proof -
  from assms(1) have "(''status'', JObj [(''$ne'', JStr ''deleted'')]) \<in> set mc"
    by (rule map_of_SomeD)
  with assms(2) have "cond_holds S d (''status'', JObj [(''$ne'', JStr ''deleted'')])"
    by (auto simp: match_doc_def list_all_iff)
  then show ?thesis by (cases "status d") (auto simp: cond_holds_def)
qed

text \<open>
  Without a filter on \<open>status\<close> the condition that excludes deleted records stays in
  the \<open>$match\<close> document, and no record returned by \<open>search_records\<close> is deleted.
\<close>

lemma search_records_not_deleted:
  assumes "search_records S q filters l ofs = Inr res"
    and "''status'' \<notin> fst ` set (copy_filters filters)"
  shows "list_all (\<lambda>d. status d \<noteq> DELETED) (data res)"
proof -
  from assms(1) obtain mc where mc: "match_conditions q filters = Inr mc"
    by (auto simp: search_records_def split: sum.splits)
  let ?matched = "filter (match_doc S mc) (collection S)"
  have ok: "\<forall>d\<in>set ?matched. status d \<noteq> DELETED"
    using match_doc_not_deleted[OF match_conditions_status[OF mc assms(2)]] by auto
  from assms(1) mc have
    "set (data res) \<subseteq> set (map (\<lambda>d. d\<lparr>score := Some (text_score S q d)\<rparr>) ?matched) \<union> set ?matched"
    by (auto simp: search_records_def Let_def split: if_splits dest!: in_set_takeD in_set_dropD)
  with ok show ?thesis by (auto simp: list_all_iff)
qed

lemma score_records_status:
  "score_records E q qe rs = Inr out \<Longrightarrow> map status out = map status rs"
  by (induction rs arbitrary: out) (auto split: if_splits sum.splits)

lemma py_sorted_desc_set: "py_sorted_desc key xs = Inr ys \<Longrightarrow> set ys = set xs"
  by (auto simp: py_sorted_desc_def split: if_splits)

lemma set_alist_update: "set (AList.update k v al) \<subseteq> insert (k, v) (set al)"
  by (induction al) auto

lemma add_keyword_records:
  "add_keyword acc K = Inr c \<Longrightarrow>
   fst ` snd ` set c \<subseteq> fst ` snd ` set acc \<union> set K"
proof (induction K arbitrary: acc)
  case Nil
  then show ?case by simp
next
  case (Cons r K)
  from Cons.prems obtain s where s: "score r = Some s"
    and rest: "add_keyword (AList.update (rec_id r) (r, Some (s * (12 / 10))) acc) K = Inr c"
    by (auto split: option.splits)
  have "set (AList.update (rec_id r) (r, Some (s * (12 / 10))) acc)
          \<subseteq> insert (rec_id r, (r, Some (s * (12 / 10)))) (set acc)"
    by (rule set_alist_update)
  then have "fst ` snd ` set (AList.update (rec_id r) (r, Some (s * (12 / 10))) acc)
          \<subseteq> insert r (fst ` snd ` set acc)"
    by force
  with Cons.IH[OF rest]
  have "fst ` snd ` set c \<subseteq> insert r (fst ` snd ` set acc) \<union> set K" by blast
  then show ?case unfolding list.set by blast
qed

lemma add_semantic_records:
  "add_semantic acc S = Inr c \<Longrightarrow>
   fst ` snd ` set c \<subseteq> fst ` snd ` set acc \<union> set S"
proof (induction S arbitrary: acc)
  case Nil
  then show ?case by simp
next
  case (Cons r S)
  show ?case
  proof (cases "map_of acc (rec_id r)")
    case None
    with Cons.prems have rest: "add_semantic (AList.update (rec_id r) (r, score r) acc) S = Inr c"
      by simp
    have "set (AList.update (rec_id r) (r, score r) acc)
            \<subseteq> insert (rec_id r, (r, score r)) (set acc)"
      by (rule set_alist_update)
    then have "fst ` snd ` set (AList.update (rec_id r) (r, score r) acc)
            \<subseteq> insert r (fst ` snd ` set acc)"
      by force
    with Cons.IH[OF rest]
    have "fst ` snd ` set c \<subseteq> insert r (fst ` snd ` set acc) \<union> set S" by blast
    then show ?thesis unfolding list.set by blast
  next
    case (Some p)
    obtain r0 sc0 where p: "p = (r0, sc0)" by (cases p)
    from Some p have mem: "(rec_id r, (r0, sc0)) \<in> set acc" by (auto dest: map_of_SomeD)
    from Cons.prems Some p obtain a b where
      rest: "add_semantic (AList.update (rec_id r) (r0, Some (a + b)) acc) S = Inr c"
      by (auto split: option.splits)
    have "set (AList.update (rec_id r) (r0, Some (a + b)) acc)
            \<subseteq> insert (rec_id r, (r0, Some (a + b))) (set acc)"
      by (rule set_alist_update)
    then have "fst ` snd ` set (AList.update (rec_id r) (r0, Some (a + b)) acc)
            \<subseteq> insert r0 (fst ` snd ` set acc)"
      by force
    moreover have "r0 \<in> fst ` snd ` set acc" using mem by force
    ultimately have "fst ` snd ` set (AList.update (rec_id r) (r0, Some (a + b)) acc)
            \<subseteq> fst ` snd ` set acc" by blast
    with Cons.IH[OF rest]
    have "fst ` snd ` set c \<subseteq> fst ` snd ` set acc \<union> set S" by blast
    then show ?thesis unfolding list.set by blast
  qed
qed

text \<open>
  The same for every retrieval strategy over such a store: without a filter on
  \<open>status\<close>, no record of any strategy's page is deleted.
\<close>

lemma strategies_not_deleted:
  assumes db: "db_search_records E = search_records S"
    and nf: "''status'' \<notin> fst ` set (copy_filters filters)"
    and res: "dispatch E st q filters l ofs = Inr res"
  shows "list_all (\<lambda>d. status d \<noteq> DELETED) (data res)"
proof -
  have kw: "list_all (\<lambda>d. status d \<noteq> DELETED) (data r)"
    if "keyword_search E q' filters l' ofs' = Inr r" for q' l' ofs' r
    using that search_records_not_deleted[OF _ nf] by (simp add: keyword_search_def db)
  have sem: "list_all (\<lambda>d. status d \<noteq> DELETED) (data r)"
    if r: "semantic_search E q' filters l' ofs' = Inr r" for q' l' ofs' r
  proof (cases "semantic_body E q' filters l' ofs'")
    case (Inl e)
    with r kw show ?thesis by (simp add: semantic_search_def)
  next
    case (Inr r')
    with r have eq: "r' = r" by (simp add: semantic_search_def)
    from Inr obtain qe w scored_records sorted_records where
      w: "search_records S [] filters 1000 0 = Inr w"
      and sc: "score_records E q' qe (data w) = Inr scored_records"
      and so: "py_sorted_desc score scored_records = Inr sorted_records"
      and d: "data r' = py_slice sorted_records ofs' (ofs' + l')"
      by (auto simp: semantic_body_def db Let_def split: sum.splits)
    have "list_all (\<lambda>d. status d \<noteq> DELETED) (data w)"
      by (rule search_records_not_deleted[OF w nf])
    then have "\<forall>x\<in>set (map status (data w)). x \<noteq> DELETED" by (auto simp: list_all_iff)
    then have "\<forall>x\<in>set (map status scored_records). x \<noteq> DELETED"
      using score_records_status[OF sc] by simp
    then have "\<forall>d\<in>set sorted_records. status d \<noteq> DELETED"
      using py_sorted_desc_set[OF so] by auto
    then show ?thesis
      using set_py_slice[of sorted_records ofs' "ofs' + l'"] d eq by (auto simp: list_all_iff)
  qed
  have keys: "''status'' \<notin> fst ` set (copy_filters (Some (AList.update ''$or'' v (copy_filters filters))))"
    for v
    using nf by (simp add: copy_filters_def dom_update split: option.splits)
  show ?thesis
  proof (cases st)
    case SEMANTIC
    with res sem show ?thesis by (simp add: dispatch_def)
  next
    case KEYWORD
    with res kw show ?thesis by (simp add: dispatch_def)
  next
    case FUZZY
    with res have r: "fuzzy_search E q filters l ofs = Inr res" by (simp add: dispatch_def)
    show ?thesis
    proof (cases "fuzzy_body E q filters l ofs")
      case (Inl e)
      with r kw show ?thesis by (simp add: fuzzy_search_def)
    next
      case (Inr r')
      with r have eq: "r' = res" by (simp add: fuzzy_search_def)
      have keys0: "''status'' \<notin> fst ` set (copy_filters (Some (copy_filters filters)))"
        using nf by (simp add: copy_filters_def)
      from Inr show ?thesis
        unfolding eq fuzzy_body_def Let_def db
        using search_records_not_deleted[OF _ keys] search_records_not_deleted[OF _ keys0]
        by (cases "extract_keywords q = []") simp_all
    qed
  next
    case EXACT
    with res have r: "exact_search E q filters l ofs = Inr res" by (simp add: dispatch_def)
    show ?thesis
    proof (cases "exact_body E q filters l ofs")
      case (Inl e)
      with r kw show ?thesis by (simp add: exact_search_def)
    next
      case (Inr r')
      with r have eq: "r' = res" by (simp add: exact_search_def)
      from Inr show ?thesis
        unfolding eq exact_body_def Let_def db
        using search_records_not_deleted[OF _ keys] by blast
    qed
  next
    case HYBRID
    with res have r: "hybrid_search_combined E q filters l ofs = Inr res"
      by (simp add: dispatch_def)
    show ?thesis
    proof (cases "hybrid_combined_body E q filters l ofs")
      case (Inl e)
      with r kw show ?thesis by (simp add: hybrid_search_combined_def)
    next
      case (Inr r')
      with r have eq: "r' = res" by (simp add: hybrid_search_combined_def)
      from Inr obtain kr sr c1 c2 sorted_results where
        k: "keyword_search E q filters (l * 2) 0 = Inr kr"
        and s: "semantic_search E q filters (l * 2) 0 = Inr sr"
        and c1: "add_keyword [] (data kr) = Inr c1"
        and c2: "add_semantic c1 (data sr) = Inr c2"
        and so: "py_sorted_desc snd (map snd c2) = Inr sorted_results"
        and d: "data r' = map set_score (py_slice sorted_results ofs (ofs + l))"
        by (auto simp: hybrid_combined_body_def Let_def split: sum.splits)
      have ok: "\<forall>x\<in>set (data kr) \<union> set (data sr). status x \<noteq> DELETED"
        using kw[OF k] sem[OF s] by (auto simp: list_all_iff)
      have "fst ` snd ` set c2 \<subseteq> set (data kr) \<union> set (data sr)"
        using add_keyword_records[OF c1] add_semantic_records[OF c2] by (simp) blast
      then have "fst ` set sorted_results \<subseteq> set (data kr) \<union> set (data sr)"
        using py_sorted_desc_set[OF so] by (auto simp: image_image)
      then have "\<forall>p\<in>set (py_slice sorted_results ofs (ofs + l)). status (fst p) \<noteq> DELETED"
        using ok set_py_slice[of sorted_results ofs "ofs + l"] by blast
      then show ?thesis
        unfolding eq[symmetric] d by (auto simp: list_all_iff set_score_def)
    qed
  qed
qed


text \<open>
  Claim C3 (a deleted record never appears, whatever the filters) at the filter
  \<open>{"status": "deleted"}\<close>. The filter loop stores the caller's value under the key
  \<open>status\<close>, which replaces the condition \<open>{"$ne": "deleted"}\<close> the \<open>$match\<close> document
  started with; the store then matches exactly the deleted record C, and the keyword
  search returns it.
\<close>

theorem status_filter_returns_deleted:
  "match_conditions ''python'' (Some [(''status'', JStr ''deleted'')])
     = Inr [(''status'', JStr ''deleted''), (''$text'', JObj [(''$search'', JStr ''python'')])]
 \<and> search_records (demo_store [rec_A, rec_B, rec_C]) ''python''
       (Some [(''status'', JStr ''deleted'')]) 10 0
     = Inr \<lparr>data = [rec_C\<lparr>score := Some (1 / 2)\<rparr>], page_total_count = 1, page_offset = 0,
            page_limit = 10, page_returned_count = 1\<rparr>
 \<and> status rec_C = DELETED
 \<and> map sr_id (results (hybrid_search (demo_env [rec_A, rec_B, rec_C]) ''python'' KEYWORD
       (Some [(''status'', JStr ''deleted'')]) 10 0 0)) = [''C'']
 \<and> map_of (facets (hybrid_search (demo_env [rec_A, rec_B, rec_C]) ''python'' KEYWORD
       (Some [(''status'', JStr ''deleted'')]) 10 0 0)) ''status'' = Some [(''deleted'', 1)]"
  by (simp add: all_defs)

end
